theory Spec2Isabelle
  imports Main
begin

section \<open>Python values and classes\<close>

text \<open>
  The cell values and filter literals that travel through \<^verbatim>\<open>redbird/sql/expressions.py\<close>.
  The fragment covers \<^verbatim>\<open>None\<close>, \<^verbatim>\<open>bool\<close>, \<^verbatim>\<open>int\<close>, \<^verbatim>\<open>str\<close>,
  \<^verbatim>\<open>datetime.date\<close> and \<^verbatim>\<open>datetime.datetime\<close> (naive). Values of \<^verbatim>\<open>float\<close>,
  \<^verbatim>\<open>datetime.timedelta\<close> and \<^verbatim>\<open>dict\<close> are not represented; their classes are, since
  the table \<^verbatim>\<open>Table.types\<close> names them.
\<close>

datatype pydate = PyDate (year: nat) (month: nat) (day: nat)

datatype pydatetime =
  PyDateTime (date_part: pydate) (hour: nat) (minute: nat) (second: nat) (microsecond: nat)

datatype pyval =
    PNone
  | PBool bool
  | PInt int
  | PStr string
  | PDate pydate
  | PDateTime pydatetime

datatype pytype = TStr | TInt | TFloat | TBool | TDate | TDateTime | TTimedelta | TDict

text \<open>
  \<^verbatim>\<open>isinstance(value, cls)\<close> for the classes above: \<^verbatim>\<open>bool\<close> is a subclass of
  \<^verbatim>\<open>int\<close>, \<^verbatim>\<open>datetime.datetime\<close> a subclass of \<^verbatim>\<open>datetime.date\<close>, and \<^verbatim>\<open>None\<close>
  is an instance of none of them.
\<close>

fun isinstance :: "pyval \<Rightarrow> pytype \<Rightarrow> bool" where
  "isinstance PNone t = False"
| "isinstance (PBool b) t = (t = TBool \<or> t = TInt)"
| "isinstance (PInt i) t = (t = TInt)"
| "isinstance (PStr s) t = (t = TStr)"
| "isinstance (PDate d) t = (t = TDate)"
| "isinstance (PDateTime d) t = (t = TDateTime \<or> t = TDate)"

section \<open>Operations and filters\<close>

text \<open>
  Modelled from the spec: the classes \<^verbatim>\<open>Operation\<close>, \<^verbatim>\<open>Between\<close>, \<^verbatim>\<open>In\<close> and the
  object \<^verbatim>\<open>skip\<close> of \<^verbatim>\<open>redbird/oper.py\<close>, which \<^verbatim>\<open>expressions.py\<close> imports and
  which is not among the sources. An operation is \<^verbatim>\<open>Between(start, end)\<close>,
  \<^verbatim>\<open>In(values)\<close>, the \<^verbatim>\<open>skip\<close> object, a generic comparator that carries its operator
  tag in the attribute \<^verbatim>\<open>__py_magic__\<close> together with a value, or any other
  \<^verbatim>\<open>Operation\<close> instance, which has no \<^verbatim>\<open>__py_magic__\<close> (given by its class name
  and value).
\<close>

datatype operation =
    Between (between_start: pyval) (between_end: pyval)
  | In "pyval list"
  | Skip
  | Comparator (py_magic: string) (cmp_value: pyval)
  | Other (oper_class: string) (oper_value: pyval)

text \<open>A filter maps a column name to a plain value or an operation; as a Python
  \<^verbatim>\<open>dict\<close> it is iterated in insertion order and its keys are distinct.\<close>

datatype filter_value = Value pyval | Oper operation

type_synonym filter = "(string \<times> filter_value) list"

section \<open>Backend expressions\<close>

text \<open>
  The expression objects of the backend toolkit that the translator builds: the
  constant \<^verbatim>\<open>true()\<close>; the result of calling a method of a column on a literal,
  \<^verbatim>\<open>getattr(column, magic)(value)\<close>, of which \<^verbatim>\<open>column == value\<close> is the case
  \<^verbatim>\<open>__eq__\<close>; \<^verbatim>\<open>column.between(start, end)\<close>; \<^verbatim>\<open>column.in_(values)\<close>; and the
  conjunction built by \<^verbatim>\<open>&\<close>. A column is referred to by name, unqualified
  (\<^verbatim>\<open>sqlalchemy.Column(name)\<close>) or as resolved on a table object.
\<close>

datatype colref = ColRef (qualifier: "string option") (cname: string)

datatype sqlexpr =
    SqlTrue
  | MethodE colref string pyval
  | BetweenE colref pyval pyval
  | InE colref "pyval list"
  | AndE sqlexpr sqlexpr

datatype error =
    NotImplementedError operation
  | AttributeError string
  | KeyError string
  | ValueError string
  | TypeError string
  | ArgumentError string
  | IndexError
  | CompileError string
  | IntegrityError string
  | NoSuchTableError "string option"
  | OperationalError string

text \<open>The Python class name of each exception.\<close>

fun exc_class :: "error \<Rightarrow> string" where
  "exc_class (NotImplementedError oper) = ''NotImplementedError''"
| "exc_class (AttributeError a) = ''AttributeError''"
| "exc_class (KeyError k) = ''KeyError''"
| "exc_class (ValueError m) = ''ValueError''"
| "exc_class (TypeError m) = ''TypeError''"
| "exc_class (ArgumentError m) = ''ArgumentError''"
| "exc_class IndexError = ''IndexError''"
| "exc_class (CompileError m) = ''CompileError''"
| "exc_class (IntegrityError m) = ''IntegrityError''"
| "exc_class (NoSuchTableError n) = ''NoSuchTableError''"
| "exc_class (OperationalError m) = ''OperationalError''"

text \<open>
  The optional \<^verbatim>\<open>table\<close> argument of \<^verbatim>\<open>to_sql_expressions\<close>: an object whose
  attributes are columns (its name and the attribute names it has). Line 280:
  \<^verbatim>\<open>getattr(table, column_name) if table is not None else sqlalchemy.Column(column_name)\<close>.
\<close>

record column_source =
  src_name :: string
  src_attrs :: "string list"

definition resolve_column :: "column_source option \<Rightarrow> string \<Rightarrow> error + colref" where
  "resolve_column table column_name =
     (case table of
        None \<Rightarrow> Inr (ColRef None column_name)
      | Some t \<Rightarrow>
          if column_name \<in> set (src_attrs t) then Inr (ColRef (Some (src_name t)) column_name)
          else Inl (AttributeError column_name))"

section \<open>The backend: tables and rows\<close>

text \<open>
  The relational engine is outside the repository; the program sees it through
  \<^verbatim>\<open>execute(statement)\<close>. It is modelled as a store of named tables, each with its
  declared columns and its rows, and a row as the list of its cells in column order
  (a \<^verbatim>\<open>RowMapping\<close>).
\<close>

datatype sqltype = String | Integer | Float | Boolean | Date | DateTime | Interval | JSON

text \<open>\<^verbatim>\<open>sql_type.python_type\<close>, the inverse of the table \<^verbatim>\<open>Table.types\<close> (lines 50-59).\<close>

fun python_type :: "sqltype \<Rightarrow> pytype" where
  "python_type String = TStr"
| "python_type Integer = TInt"
| "python_type Float = TFloat"
| "python_type Boolean = TBool"
| "python_type Date = TDate"
| "python_type DateTime = TDateTime"
| "python_type Interval = TTimedelta"
| "python_type JSON = TDict"

record column =
  col_name :: string
  col_type :: sqltype
  col_nullable :: bool

text \<open>A \<^verbatim>\<open>sqlalchemy.Table\<close> object, the schema handle the accessor caches.\<close>

record sa_table =
  tbl_name :: string
  tbl_columns :: "column list"

type_synonym row = "(string \<times> pyval) list"

record stored_table =
  st_columns :: "column list"
  st_rows :: "row list"

type_synonym database = "string \<Rightarrow> stored_table option"

subsection \<open>Statements\<close>

text \<open>
  The statements the accessor hands to the backend: raw text
  (\<^verbatim>\<open>sqlalchemy.text(qry)\<close>), and the statements built from the table object with
  their \<^verbatim>\<open>WHERE\<close> clause.
\<close>

datatype statement =
    TextStmt string
  | SelectStmt sa_table sqlexpr
  | InsertStmt sa_table row
  | DeleteStmt sa_table sqlexpr
  | UpdateStmt sa_table sqlexpr row
  | CountStmt sa_table "sqlexpr option"
  | CreateStmt sa_table

text \<open>
  What lies outside the program and is taken as given. Of the Python library: the
  parsers \<^verbatim>\<open>datetime.date.fromisoformat\<close> and \<^verbatim>\<open>datetime.datetime.fromisoformat\<close>,
  the call \<^verbatim>\<open>py_type(value)\<close> of a class on a value, and \<^verbatim>\<open>Path.read_text\<close>. Of the
  backend toolkit: which attributes a column object has, what calling one of them on
  a value raises (if anything), whether a row is selected by a comparison,
  a \<^verbatim>\<open>BETWEEN\<close> or an \<^verbatim>\<open>IN\<close>, and the execution of raw SQL text.
\<close>

record runtime =
  date_fromisoformat :: "string \<Rightarrow> error + pydate"
  datetime_fromisoformat :: "string \<Rightarrow> error + pydatetime"
  construct :: "pytype \<Rightarrow> pyval \<Rightarrow> error + pyval"
  read_text :: "string \<Rightarrow> error + string"
  column_hasattr :: "string \<Rightarrow> bool"
  column_call :: "string \<Rightarrow> pyval \<Rightarrow> error option"
  selects :: "sqlexpr \<Rightarrow> row \<Rightarrow> bool"
  run_text :: "string \<Rightarrow> database \<Rightarrow> (error + row list) \<times> database"

text \<open>
  Lines 290-294: \<^verbatim>\<open>oper_method = getattr(column, magic)\<close>, which raises
  \<^verbatim>\<open>AttributeError\<close> when the column has no attribute of that name, and
  \<^verbatim>\<open>sql_oper = oper_method(oper.value)\<close>.
\<close>

definition column_getattr :: "runtime \<Rightarrow> colref \<Rightarrow> string \<Rightarrow> error + (pyval \<Rightarrow> error + sqlexpr)" where
  "column_getattr rt column magic =
     (if column_hasattr rt magic
      then Inr (\<lambda>v. case column_call rt magic v of
                       Some e \<Rightarrow> Inl e
                     | None \<Rightarrow> Inr (MethodE column magic v))
      else Inl (AttributeError magic))"

section \<open>The filter translator\<close>

text \<open>
  \<^verbatim>\<open>Table.to_sql_expressions\<close> (lines 277-301). The \<^verbatim>\<open>for\<close> loop over
  \<^verbatim>\<open>qry.items()\<close> is the recursion \<open>to_sql_loop\<close>, whose second argument is the
  accumulator \<^verbatim>\<open>stmt\<close>; \<^verbatim>\<open>stmt &= sql_oper\<close> builds the conjunction node, and
  \<^verbatim>\<open>continue\<close> goes on with the accumulator unchanged.
\<close>

fun to_sql_loop ::
  "runtime \<Rightarrow> sqlexpr \<Rightarrow> filter \<Rightarrow> column_source option \<Rightarrow> error + sqlexpr" where
  "to_sql_loop rt stmt [] table = Inr stmt"
| "to_sql_loop rt stmt ((column_name, oper_or_value) # rest) table =
     (case resolve_column table column_name of
        Inl e \<Rightarrow> Inl e
      | Inr column \<Rightarrow>
          (case oper_or_value of
             Oper oper \<Rightarrow>
               (case oper of
                  Between s e \<Rightarrow> to_sql_loop rt (AndE stmt (BetweenE column s e)) rest table
                | In vs \<Rightarrow> to_sql_loop rt (AndE stmt (InE column vs)) rest table
                | Skip \<Rightarrow> to_sql_loop rt stmt rest table
                | Comparator magic v \<Rightarrow>
                    (case column_getattr rt column magic of
                       Inl e \<Rightarrow> Inl e
                     | Inr oper_method \<Rightarrow>
                         (case oper_method v of
                            Inl e \<Rightarrow> Inl e
                          | Inr sql_oper \<Rightarrow> to_sql_loop rt (AndE stmt sql_oper) rest table))
                | Other c v \<Rightarrow> Inl (NotImplementedError oper))
           | Value v \<Rightarrow> to_sql_loop rt (AndE stmt (MethodE column ''__eq__'' v)) rest table))"

definition to_sql_expressions ::
  "runtime \<Rightarrow> filter \<Rightarrow> column_source option \<Rightarrow> error + sqlexpr" where
  "to_sql_expressions rt qry table = to_sql_loop rt SqlTrue qry table"

section \<open>The backend's evaluation of a statement\<close>

fun cell :: "row \<Rightarrow> colref \<Rightarrow> pyval" where
  "cell r c = (case map_of r (cname c) of None \<Rightarrow> PNone | Some x \<Rightarrow> x)"

text \<open>Whether a row is selected by a \<^verbatim>\<open>WHERE\<close> clause: every row by
  \<^verbatim>\<open>true()\<close>, by a conjunction the rows that both sides select, and by a
  comparison, a \<^verbatim>\<open>BETWEEN\<close> or an \<^verbatim>\<open>IN\<close> the rows the backend says.\<close>

fun sql_eval :: "runtime \<Rightarrow> sqlexpr \<Rightarrow> row \<Rightarrow> bool" where
  "sql_eval rt SqlTrue r = True"
| "sql_eval rt (AndE a b) r = (sql_eval rt a r \<and> sql_eval rt b r)"
| "sql_eval rt e r = selects rt e r"

text \<open>The columns an expression refers to; a statement that names a column the
  table does not have is refused by the backend.\<close>

fun expr_columns :: "sqlexpr \<Rightarrow> colref list" where
  "expr_columns SqlTrue = []"
| "expr_columns (MethodE c m v) = [c]"
| "expr_columns (BetweenE c lo hi) = [c]"
| "expr_columns (InE c vs) = [c]"
| "expr_columns (AndE a b) = expr_columns a @ expr_columns b"

definition column_known :: "string \<Rightarrow> stored_table \<Rightarrow> colref \<Rightarrow> bool" where
  "column_known tname st c =
     (cname c \<in> set (map col_name (st_columns st)) \<and>
      (qualifier c = None \<or> qualifier c = Some tname))"

definition where_known :: "string \<Rightarrow> stored_table \<Rightarrow> sqlexpr \<Rightarrow> bool" where
  "where_known tname st w = list_all (column_known tname st) (expr_columns w)"

definition stored_row :: "column list \<Rightarrow> row \<Rightarrow> row" where
  "stored_row cols data =
     map (\<lambda>c. (col_name c, case map_of data (col_name c) of None \<Rightarrow> PNone | Some v \<Rightarrow> v)) cols"

definition values_known :: "stored_table \<Rightarrow> row \<Rightarrow> bool" where
  "values_known st data = list_all (\<lambda>k. k \<in> set (map col_name (st_columns st))) (map fst data)"

definition not_null_ok :: "column list \<Rightarrow> row \<Rightarrow> bool" where
  "not_null_ok cols r =
     list_all (\<lambda>c. col_nullable c \<or> map_of r (col_name c) \<noteq> Some PNone) cols"

definition update_row :: "row \<Rightarrow> row \<Rightarrow> row" where
  "update_row vals r = map (\<lambda>(n, v). (n, case map_of vals n of None \<Rightarrow> v | Some v' \<Rightarrow> v')) r"

fun db_execute :: "runtime \<Rightarrow> statement \<Rightarrow> database \<Rightarrow> (error + row list) \<times> database" where
  "db_execute rt (TextStmt s) db = run_text rt s db"
| "db_execute rt (SelectStmt t w) db =
     (case db (tbl_name t) of
        None \<Rightarrow> (Inl (OperationalError (tbl_name t)), db)
      | Some st \<Rightarrow>
          if where_known (tbl_name t) st w then (Inr (filter (sql_eval rt w) (st_rows st)), db)
          else (Inl (OperationalError (tbl_name t)), db))"
| "db_execute rt (CountStmt t wo) db =
     (case db (tbl_name t) of
        None \<Rightarrow> (Inl (OperationalError (tbl_name t)), db)
      | Some st \<Rightarrow>
          (case wo of
             None \<Rightarrow> (Inr [[(''count_1'', PInt (int (length (st_rows st))))]], db)
           | Some w \<Rightarrow>
               if where_known (tbl_name t) st w
               then (Inr [[(''count_1'', PInt (int (length (filter (sql_eval rt w) (st_rows st)))))]], db)
               else (Inl (OperationalError (tbl_name t)), db)))"
| "db_execute rt (InsertStmt t data) db =
     (case db (tbl_name t) of
        None \<Rightarrow> (Inl (OperationalError (tbl_name t)), db)
      | Some st \<Rightarrow>
          if \<not> values_known st data then (Inl (CompileError (tbl_name t)), db)
          else if \<not> not_null_ok (st_columns st) (stored_row (st_columns st) data)
          then (Inl (IntegrityError (tbl_name t)), db)
          else (Inr [],
                db(tbl_name t \<mapsto> st\<lparr>st_rows := st_rows st @ [stored_row (st_columns st) data]\<rparr>)))"
| "db_execute rt (DeleteStmt t w) db =
     (case db (tbl_name t) of
        None \<Rightarrow> (Inl (OperationalError (tbl_name t)), db)
      | Some st \<Rightarrow>
          if where_known (tbl_name t) st w
          then (Inr [], db(tbl_name t \<mapsto> st\<lparr>st_rows := filter (\<lambda>r. \<not> sql_eval rt w r) (st_rows st)\<rparr>))
          else (Inl (OperationalError (tbl_name t)), db))"
| "db_execute rt (UpdateStmt t w vals) db =
     (case db (tbl_name t) of
        None \<Rightarrow> (Inl (OperationalError (tbl_name t)), db)
      | Some st \<Rightarrow>
          if \<not> values_known st vals then (Inl (CompileError (tbl_name t)), db)
          else if \<not> where_known (tbl_name t) st w then (Inl (OperationalError (tbl_name t)), db)
          else if \<not> list_all (\<lambda>r. if sql_eval rt w r then not_null_ok (st_columns st) (update_row vals r) else True)
                     (st_rows st)
          then (Inl (IntegrityError (tbl_name t)), db)
          else (Inr [],
                db(tbl_name t \<mapsto>
                   st\<lparr>st_rows := map (\<lambda>r. if sql_eval rt w r then update_row vals r else r) (st_rows st)\<rparr>)))"
| "db_execute rt (CreateStmt t) db =
     (case db (tbl_name t) of
        Some st \<Rightarrow> (Inl (OperationalError (tbl_name t)), db)
      | None \<Rightarrow> (Inr [], db(tbl_name t \<mapsto> \<lparr>st_columns = tbl_columns t, st_rows = []\<rparr>)))"

section \<open>The type bridge\<close>

fun the_str :: "pyval \<Rightarrow> string" where
  "the_str (PStr s) = s"
| "the_str v = []"

text \<open>\<^verbatim>\<open>to_native\<close> (lines 504-515).\<close>

definition to_native :: "runtime \<Rightarrow> pyval \<Rightarrow> sqltype \<Rightarrow> bool \<Rightarrow> error + pyval" where
  "to_native rt value sql_type nullable =
     (let py_type = python_type sql_type in
      if isinstance value py_type then Inr value
      else if py_type = TDateTime \<and> isinstance value TStr then
        (case datetime_fromisoformat rt (the_str value) of
           Inl e \<Rightarrow> Inl e
         | Inr d \<Rightarrow> Inr (PDateTime d))
      else if py_type = TDate \<and> isinstance value TStr then
        (case date_fromisoformat rt (the_str value) of
           Inl e \<Rightarrow> Inl e
         | Inr d \<Rightarrow> Inr (PDate d))
      else if nullable \<and> value = PNone then Inr value
      else construct rt py_type value)"

section \<open>The table accessor\<close>

text \<open>
  The attribute \<^verbatim>\<open>engine\<close> of a \<^verbatim>\<open>Table\<close> is an \<^verbatim>\<open>Engine\<close>, or, in the clone that
  \<^verbatim>\<open>open_transaction\<close> returns, a \<^verbatim>\<open>Connection\<close>. A connection is given with what
  its \<^verbatim>\<open>get_transaction()\<close> returns: \<^verbatim>\<open>None\<close> when no transaction is in progress,
  else the open transaction, represented by the store to roll back to.
\<close>

datatype conn = Engine | Connection "database option"

text \<open>The instance attributes \<^verbatim>\<open>engine\<close>, \<^verbatim>\<open>_name\<close> and \<^verbatim>\<open>_object\<close> of class
  \<^verbatim>\<open>Table\<close>. The name is optional: the module-level functions default it to
  \<^verbatim>\<open>None\<close>.\<close>

record table =
  engine :: conn
  ivar_name :: "string option"
  ivar_object :: "sa_table option"

text \<open>The property \<^verbatim>\<open>connection\<close> (lines 471-478).\<close>

definition connection :: "table \<Rightarrow> conn" where
  "connection self = engine self"

definition set_connection :: "table \<Rightarrow> conn \<Rightarrow> table" where
  "set_connection self v = self\<lparr>engine := v\<rparr>"

text \<open>The property \<^verbatim>\<open>name\<close> and its setter (lines 492-501).\<close>

definition name :: "table \<Rightarrow> string option" where
  "name self =
     (case ivar_object self of
        Some obj \<Rightarrow> Some (tbl_name obj)
      | None \<Rightarrow> ivar_name self)"

definition set_name :: "table \<Rightarrow> string option \<Rightarrow> table" where
  "set_name self v = self\<lparr>ivar_name := v, ivar_object := None\<rparr>"

text \<open>The setter of the property \<^verbatim>\<open>object\<close> (lines 487-490).\<close>

definition set_object :: "table \<Rightarrow> sa_table \<Rightarrow> table" where
  "set_object self v = self\<lparr>ivar_object := Some v, ivar_name := Some (tbl_name v)\<rparr>"

text \<open>\<^verbatim>\<open>Table.__init__\<close> (lines 77-79): \<^verbatim>\<open>self.name = table\<close> goes through the
  setter.\<close>

definition init :: "string option \<Rightarrow> conn \<Rightarrow> table" where
  "init tname eng =
     set_name \<lparr>engine = eng, ivar_name = None, ivar_object = None\<rparr> tname"

text \<open>\<^verbatim>\<open>reflect_table\<close> (lines 520-524): the backend is asked for the columns of the
  named table; there is none without a name.\<close>

definition reflect_table :: "string option \<Rightarrow> database \<Rightarrow> error + sa_table" where
  "reflect_table tname db =
     (case tname of
        None \<Rightarrow> Inl (NoSuchTableError None)
      | Some n \<Rightarrow>
          (case db n of
             None \<Rightarrow> Inl (NoSuchTableError (Some n))
           | Some st \<Rightarrow> Inr \<lparr>tbl_name = n, tbl_columns = st_columns st\<rparr>))"

text \<open>\<^verbatim>\<open>Table.reflect\<close> (lines 337-338).\<close>

definition reflect :: "table \<Rightarrow> database \<Rightarrow> error + table" where
  "reflect self db =
     (case reflect_table (name self) db of
        Inl e \<Rightarrow> Inl e
      | Inr obj \<Rightarrow> Inr (self\<lparr>ivar_object := Some obj\<rparr>))"

text \<open>The getter of the property \<^verbatim>\<open>object\<close> (lines 480-485), which reflects when
  nothing is cached. It returns the handle and the accessor as it is afterwards; when
  \<^verbatim>\<open>reflect\<close> raises, nothing has been assigned.\<close>

definition object :: "table \<Rightarrow> database \<Rightarrow> error + sa_table \<times> table" where
  "object self db =
     (case ivar_object self of
        None \<Rightarrow>
          (case reflect self db of
             Inl e \<Rightarrow> Inl e
           | Inr self' \<Rightarrow>
               (case ivar_object self' of
                  None \<Rightarrow> Inl (AttributeError ''NoneType'')
                | Some obj \<Rightarrow> Inr (obj, self')))
      | Some obj \<Rightarrow> Inr (obj, self))"

text \<open>\<^verbatim>\<open>Table.execute\<close> (lines 425-435): a string is wrapped as text; on an engine
  the statement runs in a transaction of its own, on a connection in the caller's.\<close>

datatype exec_arg = ArgStr string | ArgStmt statement

definition execute :: "runtime \<Rightarrow> table \<Rightarrow> exec_arg \<Rightarrow> database \<Rightarrow> (error + row list) \<times> database" where
  "execute rt self arg db =
     (let stmt = (case arg of ArgStr s \<Rightarrow> TextStmt s | ArgStmt st \<Rightarrow> st);
          conn = connection self
      in case conn of
           Engine \<Rightarrow> db_execute rt stmt db
         | Connection tx \<Rightarrow> db_execute rt stmt db)"

text \<open>The dict comprehension of \<^verbatim>\<open>_get_types\<close>: a column's name with the
  arguments \<^verbatim>\<open>sql_type\<close> and \<^verbatim>\<open>nullable\<close> of its \<^verbatim>\<open>to_native\<close>.\<close>

definition column_types :: "sa_table \<Rightarrow> (string \<times> sqltype \<times> bool) list" where
  "column_types obj = map (\<lambda>col. (col_name col, col_type col, col_nullable col)) (tbl_columns obj)"

text \<open>\<^verbatim>\<open>Table._get_types\<close> (lines 272-275): for every column of the table object,
  \<^verbatim>\<open>to_native\<close> with the column's type and nullability.\<close>

definition get_types :: "table \<Rightarrow> database \<Rightarrow> error + (string \<times> sqltype \<times> bool) list \<times> table" where
  "get_types self db =
     (case object self db of
        Inl e \<Rightarrow> Inl e
      | Inr (obj, self') \<Rightarrow>
          Inr (column_types obj, self'))"

text \<open>Line 269, the dict comprehension over the columns; \<^verbatim>\<open>row[name]\<close> raises
  \<^verbatim>\<open>KeyError\<close> for a column the row does not have.\<close>

fun format_row :: "runtime \<Rightarrow> (string \<times> sqltype \<times> bool) list \<Rightarrow> row \<Rightarrow> error + row" where
  "format_row rt [] r = Inr []"
| "format_row rt ((cn, ty, nullable) # columns) r =
     (case map_of r cn of
        None \<Rightarrow> Inl (KeyError cn)
      | Some v \<Rightarrow>
          (case to_native rt v ty nullable of
             Inl e \<Rightarrow> Inl e
           | Inr v' \<Rightarrow>
               (case format_row rt columns r of
                  Inl e \<Rightarrow> Inl e
                | Inr r' \<Rightarrow> Inr ((cn, v') # r'))))"

fun format_rows :: "runtime \<Rightarrow> (string \<times> sqltype \<times> bool) list \<Rightarrow> row list \<Rightarrow> error + row list" where
  "format_rows rt columns [] = Inr []"
| "format_rows rt columns (r # res) =
     (case format_row rt columns r of
        Inl e \<Rightarrow> Inl e
      | Inr r' \<Rightarrow>
          (case format_rows rt columns res of
             Inl e \<Rightarrow> Inl e
           | Inr res' \<Rightarrow> Inr (r' # res')))"

text \<open>\<^verbatim>\<open>Table._format_results\<close> (lines 266-270), a generator; the model is the
  list obtained by consuming it, \<^verbatim>\<open>list(self._format_results(res))\<close>.\<close>

definition format_results :: "runtime \<Rightarrow> table \<Rightarrow> row list \<Rightarrow> database \<Rightarrow> (error + row list) \<times> table" where
  "format_results rt self res db =
     (case get_types self db of
        Inl e \<Rightarrow> (Inl e, self)
      | Inr (columns, self') \<Rightarrow> (format_rows rt columns res, self'))"

subsection \<open>The statement dispatcher\<close>

text \<open>
  The filter argument of \<^verbatim>\<open>select\<close>, \<^verbatim>\<open>delete\<close>, \<^verbatim>\<open>update\<close> and \<^verbatim>\<open>count\<close>:
  a \<^verbatim>\<open>Path\<close>, a \<^verbatim>\<open>str\<close> of raw SQL, a \<^verbatim>\<open>dict\<close> filter or a backend expression;
  \<^verbatim>\<open>None\<close> where the argument is optional.
\<close>

datatype qry = QPath string | QText string | QDict filter | QExpr sqlexpr

text \<open>Lines 140-146 of \<^verbatim>\<open>select\<close>: a path is read, \<^verbatim>\<open>None\<close> becomes \<^verbatim>\<open>true()\<close>,
  a dict is translated. What is left is a string or an expression.\<close>

definition select_query :: "runtime \<Rightarrow> qry option \<Rightarrow> error + (string + sqlexpr)" where
  "select_query rt qry =
     (case qry of
        Some (QPath p) \<Rightarrow> (case read_text rt p of Inl e \<Rightarrow> Inl e | Inr s \<Rightarrow> Inr (Inl s))
      | None \<Rightarrow> Inr (Inr SqlTrue)
      | Some (QDict d) \<Rightarrow>
          (case to_sql_expressions rt d None of Inl e \<Rightarrow> Inl e | Inr w \<Rightarrow> Inr (Inr w))
      | Some (QText s) \<Rightarrow> Inr (Inl s)
      | Some (QExpr w) \<Rightarrow> Inr (Inr w))"

text \<open>
  \<^verbatim>\<open>Table.select\<close> (lines 81-165), with the argument \<^verbatim>\<open>columns\<close> at its default
  \<^verbatim>\<open>None\<close>, and the returned iterable consumed into a list. The result is what is
  returned or raised, the accessor and the store afterwards.
\<close>

definition select ::
  "runtime \<Rightarrow> table \<Rightarrow> qry option \<Rightarrow> database \<Rightarrow> (error + row list) \<times> table \<times> database" where
  "select rt self qry db =
     (case select_query rt qry of
        Inl e \<Rightarrow> (Inl e, self, db)
      | Inr q \<Rightarrow>
          (case (case q of
                   Inl s \<Rightarrow> Inr (TextStmt s, self)
                 | Inr w \<Rightarrow>
                     (case object self db of
                        Inl e \<Rightarrow> Inl e
                      | Inr (obj, self') \<Rightarrow> Inr (SelectStmt obj w, self'))) of
             Inl e \<Rightarrow> (Inl e, self, db)
           | Inr (statement, self1) \<Rightarrow>
               (case execute rt self1 (ArgStmt statement) db of
                  (Inl e, db1) \<Rightarrow> (Inl e, self1, db1)
                | (Inr rows, db1) \<Rightarrow>
                    if name self1 \<noteq> None then
                      (case format_results rt self1 rows db1 of
                         (res, self2) \<Rightarrow> (res, self2, db1))
                    else (Inr rows, self1, db1))))"

text \<open>\<^verbatim>\<open>Table.insert\<close> (lines 167-170).\<close>

definition insert_row ::
  "runtime \<Rightarrow> table \<Rightarrow> row \<Rightarrow> database \<Rightarrow> (error + unit) \<times> table \<times> database" where
  "insert_row rt self data db =
     (case object self db of
        Inl e \<Rightarrow> (Inl e, self, db)
      | Inr (obj, self1) \<Rightarrow>
          (case execute rt self1 (ArgStmt (InsertStmt obj data)) db of
             (Inl e, db1) \<Rightarrow> (Inl e, self1, db1)
           | (Inr rows, db1) \<Rightarrow> (Inr (), self1, db1)))"

text \<open>The first step of \<^verbatim>\<open>delete\<close>, \<^verbatim>\<open>update\<close> and \<^verbatim>\<open>count\<close>:
  \<^verbatim>\<open>if isinstance(where, dict): where = self.to_sql_expressions(where)\<close>.\<close>

definition translate_where :: "runtime \<Rightarrow> qry \<Rightarrow> error + qry" where
  "translate_where rt whereclause =
     (case whereclause of
        QDict d \<Rightarrow> (case to_sql_expressions rt d None of Inl e \<Rightarrow> Inl e | Inr w \<Rightarrow> Inr (QExpr w))
      | q \<Rightarrow> Inr q)"

text \<open>The backend's \<^verbatim>\<open>.where(whereclause)\<close>: an expression is taken as it is;
  a plain string (or any other object) is refused with \<^verbatim>\<open>ArgumentError\<close>, as the
  toolkit has done since its version 1.4.\<close>

definition where_coerce :: "qry \<Rightarrow> error + sqlexpr" where
  "where_coerce whereclause =
     (case whereclause of
        QExpr w \<Rightarrow> Inr w
      | QText s \<Rightarrow> Inl (ArgumentError s)
      | QPath p \<Rightarrow> Inl (ArgumentError p)
      | QDict d \<Rightarrow> Inl (ArgumentError ''dict''))"

text \<open>\<^verbatim>\<open>Table.delete\<close> (lines 172-201).\<close>

definition delete ::
  "runtime \<Rightarrow> table \<Rightarrow> qry \<Rightarrow> database \<Rightarrow> (error + unit) \<times> table \<times> database" where
  "delete rt self whereclause db =
     (case translate_where rt whereclause of
        Inl e \<Rightarrow> (Inl e, self, db)
      | Inr where1 \<Rightarrow>
          (case object self db of
             Inl e \<Rightarrow> (Inl e, self, db)
           | Inr (obj, self1) \<Rightarrow>
               (case where_coerce where1 of
                  Inl e \<Rightarrow> (Inl e, self1, db)
                | Inr w \<Rightarrow>
                    (case execute rt self1 (ArgStmt (DeleteStmt obj w)) db of
                       (Inl e, db1) \<Rightarrow> (Inl e, self1, db1)
                     | (Inr rows, db1) \<Rightarrow> (Inr (), self1, db1)))))"

text \<open>\<^verbatim>\<open>Table.update\<close> (lines 203-235).\<close>

definition update ::
  "runtime \<Rightarrow> table \<Rightarrow> qry \<Rightarrow> row \<Rightarrow> database \<Rightarrow> (error + unit) \<times> table \<times> database" where
  "update rt self whereclause vals db =
     (case translate_where rt whereclause of
        Inl e \<Rightarrow> (Inl e, self, db)
      | Inr where1 \<Rightarrow>
          (case object self db of
             Inl e \<Rightarrow> (Inl e, self, db)
           | Inr (obj, self1) \<Rightarrow>
               (case where_coerce where1 of
                  Inl e \<Rightarrow> (Inl e, self1, db)
                | Inr w \<Rightarrow>
                    (case execute rt self1 (ArgStmt (UpdateStmt obj w vals)) db of
                       (Inl e, db1) \<Rightarrow> (Inl e, self1, db1)
                     | (Inr rows, db1) \<Rightarrow> (Inr (), self1, db1)))))"

text \<open>\<^verbatim>\<open>list(result)[0][0]\<close>, the last line of \<^verbatim>\<open>count\<close>.\<close>

fun first_cell :: "row list \<Rightarrow> error + pyval" where
  "first_cell [] = Inl IndexError"
| "first_cell ([] # rows) = Inl IndexError"
| "first_cell (((k, v) # r) # rows) = Inr v"

text \<open>\<^verbatim>\<open>Table.count\<close> (lines 237-264). The statement is begun from
  \<^verbatim>\<open>self.object\<close> before the filter is looked at.\<close>

definition count ::
  "runtime \<Rightarrow> table \<Rightarrow> qry option \<Rightarrow> database \<Rightarrow> (error + pyval) \<times> table \<times> database" where
  "count rt self whereclause db =
     (case object self db of
        Inl e \<Rightarrow> (Inl e, self, db)
      | Inr (obj, self1) \<Rightarrow>
          (case (case whereclause of
                   None \<Rightarrow> Inr None
                 | Some w0 \<Rightarrow>
                     (case translate_where rt w0 of
                        Inl e \<Rightarrow> Inl e
                      | Inr where1 \<Rightarrow>
                          (case where_coerce where1 of
                             Inl e \<Rightarrow> Inl e
                           | Inr w \<Rightarrow> Inr (Some w)))) of
             Inl e \<Rightarrow> (Inl e, self1, db)
           | Inr wo \<Rightarrow>
               (case execute rt self1 (ArgStmt (CountStmt obj wo)) db of
                  (Inl e, db1) \<Rightarrow> (Inl e, self1, db1)
                | (Inr rows, db1) \<Rightarrow> (first_cell rows, self1, db1))))"

text \<open>\<^verbatim>\<open>Table.create\<close> (lines 340-408), for \<^verbatim>\<open>columns\<close> given as a list of backend
  column objects, which the other accepted forms are first turned into. A table
  object cannot be made without a name.\<close>

definition create ::
  "runtime \<Rightarrow> table \<Rightarrow> column list \<Rightarrow> database \<Rightarrow> (error + unit) \<times> table \<times> database" where
  "create rt self columns db =
     (case name self of
        None \<Rightarrow> (Inl (ArgumentError ''name''), self, db)
      | Some n \<Rightarrow>
          (let tbl = \<lparr>tbl_name = n, tbl_columns = columns\<rparr> in
           case db_execute rt (CreateStmt tbl) db of
             (Inl e, db1) \<Rightarrow> (Inl e, self, db1)
           | (Inr rows, db1) \<Rightarrow> (Inr (), self\<lparr>ivar_object := Some tbl\<rparr>, db1)))"

text \<open>\<^verbatim>\<open>connection.get_transaction()\<close>: an \<^verbatim>\<open>Engine\<close> has no such attribute.\<close>

definition get_transaction :: "conn \<Rightarrow> error + database option" where
  "get_transaction c =
     (case c of
        Engine \<Rightarrow> Inl (AttributeError ''get_transaction'')
      | Connection tx \<Rightarrow> Inr tx)"

text \<open>\<^verbatim>\<open>Table.rollback\<close> and \<^verbatim>\<open>Table.commit\<close> (lines 463-469). The method is
  looked up on what \<^verbatim>\<open>get_transaction()\<close> returned, which is \<^verbatim>\<open>None\<close> when no
  transaction is in progress.\<close>

definition rollback :: "table \<Rightarrow> database \<Rightarrow> (error + unit) \<times> table \<times> database" where
  "rollback self db =
     (case get_transaction (connection self) of
        Inl e \<Rightarrow> (Inl e, self, db)
      | Inr None \<Rightarrow> (Inl (AttributeError ''rollback''), self, db)
      | Inr (Some snapshot) \<Rightarrow> (Inr (), self\<lparr>engine := Connection None\<rparr>, snapshot))"

definition commit :: "table \<Rightarrow> database \<Rightarrow> (error + unit) \<times> table \<times> database" where
  "commit self db =
     (case get_transaction (connection self) of
        Inl e \<Rightarrow> (Inl e, self, db)
      | Inr None \<Rightarrow> (Inl (AttributeError ''commit''), self, db)
      | Inr (Some snapshot) \<Rightarrow> (Inr (), self\<lparr>engine := Connection None\<rparr>, db))"

text \<open>The module-level functions (lines 526-620) make an accessor and call its
  method; \<^verbatim>\<open>execute\<close> makes it without a table name.\<close>

definition module_select ::
  "runtime \<Rightarrow> conn \<Rightarrow> string option \<Rightarrow> qry option \<Rightarrow> database \<Rightarrow> (error + row list) \<times> table \<times> database" where
  "module_select rt eng tname qry db = select rt (init tname eng) qry db"

definition module_count ::
  "runtime \<Rightarrow> conn \<Rightarrow> string option \<Rightarrow> qry option \<Rightarrow> database \<Rightarrow> (error + pyval) \<times> table \<times> database" where
  "module_count rt eng tname whereclause db = count rt (init tname eng) whereclause db"

definition module_execute ::
  "runtime \<Rightarrow> conn \<Rightarrow> exec_arg \<Rightarrow> database \<Rightarrow> (error + row list) \<times> database" where
  "module_execute rt eng arg db = execute rt (init None eng) arg db"

subsection \<open>The accessor as a state machine\<close>

text \<open>The operations on an accessor: its public methods and the getters and setters
  of its properties, each with the accessor and store it leaves behind, whether it
  returns or raises. \<^verbatim>\<open>create_from_model\<close> ends in \<^verbatim>\<open>create\<close>;
  \<^verbatim>\<open>open_transaction\<close> and the context-manager protocol work on a copy of the
  accessor and assign neither \<^verbatim>\<open>_name\<close> nor \<^verbatim>\<open>_object\<close>, and are left out.\<close>

datatype call =
    Select "qry option"
  | Insert row
  | Delete qry
  | Update qry row
  | Count "qry option"
  | Create "column list"
  | Reflect
  | Execute exec_arg
  | Rollback
  | Commit
  | GetConnection
  | SetConnection conn
  | GetObject
  | SetObject sa_table
  | GetName
  | SetName "string option"

fun step :: "runtime \<Rightarrow> call \<Rightarrow> table \<times> database \<Rightarrow> table \<times> database" where
  "step rt (Select q) (self, db) = snd (select rt self q db)"
| "step rt (Insert data) (self, db) = snd (insert_row rt self data db)"
| "step rt (Delete w) (self, db) = snd (delete rt self w db)"
| "step rt (Update w vals) (self, db) = snd (update rt self w vals db)"
| "step rt (Count w) (self, db) = snd (count rt self w db)"
| "step rt (Create columns) (self, db) = snd (create rt self columns db)"
| "step rt Reflect (self, db) = (case reflect self db of Inl e \<Rightarrow> (self, db) | Inr self' \<Rightarrow> (self', db))"
| "step rt (Execute arg) (self, db) = (self, snd (execute rt self arg db))"
| "step rt Rollback (self, db) = snd (rollback self db)"
| "step rt Commit (self, db) = snd (commit self db)"
| "step rt GetConnection (self, db) = (self, db)"
| "step rt (SetConnection c) (self, db) = (set_connection self c, db)"
| "step rt GetObject (self, db) = (case object self db of Inl e \<Rightarrow> (self, db) | Inr (obj, self') \<Rightarrow> (self', db))"
| "step rt (SetObject v) (self, db) = (set_object self v, db)"
| "step rt GetName (self, db) = (self, db)"
| "step rt (SetName v) (self, db) = (set_name self v, db)"

text \<open>The two states of the cached schema handle.\<close>

definition resolved :: "table \<Rightarrow> bool" where
  "resolved self = (ivar_object self \<noteq> None)"

section \<open>What the specification says, in its own words\<close>

text \<open>
  The expression the specification (4.1) gives for each pair of a filter: none for
  \<^verbatim>\<open>Skip\<close>, \<^verbatim>\<open>column BETWEEN start AND end\<close> for \<^verbatim>\<open>Between\<close>,
  \<^verbatim>\<open>column IN (values)\<close> for \<^verbatim>\<open>In\<close>, for a generic comparator the comparison that
  its tag names, and \<^verbatim>\<open>column == value\<close> for a plain value. An operation of no known
  kind has no expression: the translator is to fail on it.
\<close>

fun spec_conjuncts :: "string \<times> filter_value \<Rightarrow> sqlexpr list" where
  "spec_conjuncts (c, Oper Skip) = []"
| "spec_conjuncts (c, Oper (Between a b)) = [BetweenE (ColRef None c) a b]"
| "spec_conjuncts (c, Oper (In vs)) = [InE (ColRef None c) vs]"
| "spec_conjuncts (c, Oper (Comparator m v)) = [MethodE (ColRef None c) m v]"
| "spec_conjuncts (c, Oper (Other k v)) = []"
| "spec_conjuncts (c, Value v) = [MethodE (ColRef None c) ''__eq__'' v]"

text \<open>The specification's translation: start from the tautology and conjoin the
  expression of each pair, in iteration order.\<close>

definition spec_expression :: "filter \<Rightarrow> sqlexpr" where
  "spec_expression qry = foldl AndE SqlTrue (concat (map spec_conjuncts qry))"


text \<open>A pair that the translator gets past: its column resolves, and its value is
  not an unsupported operation nor a comparator whose method the column lacks or
  whose call raises.\<close>

fun translatable :: "runtime \<Rightarrow> column_source option \<Rightarrow> string \<times> filter_value \<Rightarrow> bool" where
  "translatable rt table (c, Value v) = (\<not> isl (resolve_column table c))"
| "translatable rt table (c, Oper (Comparator m v)) =
     (\<not> isl (resolve_column table c) \<and> column_hasattr rt m \<and> column_call rt m v = None)"
| "translatable rt table (c, Oper (Other k v)) = False"
| "translatable rt table (c, Oper oper) = (\<not> isl (resolve_column table c))"

text \<open>A backend whose \<^verbatim>\<open>BETWEEN\<close> is the one of the SQL standard:
  \<^verbatim>\<open>x BETWEEN a AND b\<close> selects a row exactly when \<^verbatim>\<open>x >= a\<close> and \<^verbatim>\<open>x <= b\<close>
  both do.\<close>

definition standard_between :: "runtime \<Rightarrow> bool" where
  "standard_between rt =
     (\<forall>c a b r. selects rt (BetweenE c a b) r =
        (selects rt (MethodE c ''__ge__'' a) r \<and> selects rt (MethodE c ''__le__'' b) r))"

text \<open>The operations through which the specification lets the schema handle become
  resolved: \<^verbatim>\<open>create\<close>, \<^verbatim>\<open>reflect\<close>, and those that read \<^verbatim>\<open>self.object\<close> and so
  reflect when nothing is cached.\<close>

fun spec_resolving :: "call \<Rightarrow> bool" where
  "spec_resolving (Create columns) = True"
| "spec_resolving Reflect = True"
| "spec_resolving (Select q) = True"
| "spec_resolving (Insert data) = True"
| "spec_resolving (Delete w) = True"
| "spec_resolving (Update w vals) = True"
| "spec_resolving (Count w) = True"
| "spec_resolving GetObject = True"
| "spec_resolving c = False"

fun is_SetObject :: "call \<Rightarrow> bool" where
  "is_SetObject (SetObject v) = True"
| "is_SetObject c = False"

fun is_SetName :: "call \<Rightarrow> bool" where
  "is_SetName (SetName v) = True"
| "is_SetName c = False"

text \<open>The operations that assign the schema handle outright: \<^verbatim>\<open>create\<close>,
  \<^verbatim>\<open>reflect\<close>, and the setters of the properties \<^verbatim>\<open>object\<close> and \<^verbatim>\<open>name\<close>.\<close>

fun assigns_handle :: "call \<Rightarrow> bool" where
  "assigns_handle (Create columns) = True"
| "assigns_handle Reflect = True"
| "assigns_handle (SetObject v) = True"
| "assigns_handle (SetName v) = True"
| "assigns_handle c = False"

text \<open>The forms of filter that \<^verbatim>\<open>count\<close>, \<^verbatim>\<open>delete\<close> and \<^verbatim>\<open>update\<close> document:
  a dict or a backend expression, and for \<^verbatim>\<open>count\<close> no filter at all.\<close>

fun structured :: "qry option \<Rightarrow> bool" where
  "structured None = True"
| "structured (Some (QDict d)) = True"
| "structured (Some (QExpr w)) = True"
| "structured (Some (QText s)) = False"
| "structured (Some (QPath p)) = False"

section \<open>A concrete store and runtime\<close>

text \<open>
  The table \<^verbatim>\<open>populated\<close> of the test suite
  (\<^verbatim>\<open>redbird/test/sql/operations/test_select.py\<close>). The driver hands the dates over
  as ISO strings, as \<^verbatim>\<open>test_select_without_table\<close> shows. A second table,
  \<^verbatim>\<open>events\<close>, has a column of type \<^verbatim>\<open>DateTime\<close>.
\<close>

definition populated_columns :: "column list" where
  "populated_columns =
     [\<lparr>col_name = ''id'', col_type = String, col_nullable = False\<rparr>,
      \<lparr>col_name = ''name'', col_type = String, col_nullable = True\<rparr>,
      \<lparr>col_name = ''birth_date'', col_type = Date, col_nullable = True\<rparr>,
      \<lparr>col_name = ''score'', col_type = Integer, col_nullable = True\<rparr>]"

definition row_a :: row where
  "row_a = [(''id'', PStr ''a''), (''name'', PStr ''Jack''),
            (''birth_date'', PStr ''2000-01-01''), (''score'', PInt 100)]"

definition row_b :: row where
  "row_b = [(''id'', PStr ''b''), (''name'', PStr ''John''),
            (''birth_date'', PStr ''1990-01-01''), (''score'', PInt 200)]"

definition row_c :: row where
  "row_c = [(''id'', PStr ''c''), (''name'', PStr ''James''),
            (''birth_date'', PStr ''2020-01-01''), (''score'', PInt 300)]"

definition events_columns :: "column list" where
  "events_columns =
     [\<lparr>col_name = ''id'', col_type = Integer, col_nullable = False\<rparr>,
      \<lparr>col_name = ''at'', col_type = DateTime, col_nullable = True\<rparr>]"

definition row_e :: row where
  "row_e = [(''id'', PInt 1), (''at'', PStr ''2020-01-02 03:04:05'')]"

definition sample_db :: database where
  "sample_db =
     Map.empty(''populated'' \<mapsto> \<lparr>st_columns = populated_columns, st_rows = [row_a, row_b, row_c]\<rparr>,
               ''events'' \<mapsto> \<lparr>st_columns = events_columns, st_rows = [row_e]\<rparr>)"

text \<open>
  A runtime for evaluating the definitions at concrete inputs. Its functions do what
  Python and the backend do on the inputs used below: \<^verbatim>\<open>fromisoformat\<close> on
  \<^verbatim>\<open>YYYY-MM-DD\<close> and on \<^verbatim>\<open>YYYY-MM-DD HH:MM:SS\<close>; \<^verbatim>\<open>int(s)\<close> on a string of
  decimal digits or of letters; a column that has the six comparison methods and
  \<^verbatim>\<open>__add__\<close> and none called \<^verbatim>\<open>__foo__\<close>; comparisons of a cell with a literal of
  its own kind, with a date literal when the cell is an ISO string and with a string
  of digits when the cell is an integer; and the one raw query the backend is given.
  On every other input the functions raise or select nothing, which Python and the
  backend need not do; the theorems that hold for every runtime do not depend on it.
\<close>

definition digit_val :: "char \<Rightarrow> nat option" where
  "digit_val c =
     (let n = (of_char c :: nat) in if 48 \<le> n \<and> n \<le> 57 then Some (n - 48) else None)"

fun digits_val :: "nat \<Rightarrow> string \<Rightarrow> nat option" where
  "digits_val acc [] = Some acc"
| "digits_val acc (c # cs) =
     (case digit_val c of None \<Rightarrow> None | Some d \<Rightarrow> digits_val (10 * acc + d) cs)"

definition days_in_month :: "nat \<Rightarrow> nat \<Rightarrow> nat" where
  "days_in_month y m =
     (if m = 2 then (if y mod 4 = 0 \<and> (y mod 100 \<noteq> 0 \<or> y mod 400 = 0) then 29 else 28)
      else if m = 4 \<or> m = 6 \<or> m = 9 \<or> m = 11 then 30 else 31)"

definition sample_date_fromisoformat :: "string \<Rightarrow> error + pydate" where
  "sample_date_fromisoformat s =
     (if length s = 10 \<and> s ! 4 = CHR ''-'' \<and> s ! 7 = CHR ''-'' then
        (case (digits_val 0 (take 4 s), digits_val 0 (take 2 (drop 5 s)), digits_val 0 (drop 8 s)) of
           (Some y, Some m, Some d) \<Rightarrow>
             if 1 \<le> y \<and> 1 \<le> m \<and> m \<le> 12 \<and> 1 \<le> d \<and> d \<le> days_in_month y m
             then Inr (PyDate y m d) else Inl (ValueError s)
         | _ \<Rightarrow> Inl (ValueError s))
      else Inl (ValueError s))"

definition sample_time :: "string \<Rightarrow> (nat \<times> nat \<times> nat) option" where
  "sample_time s =
     (if length s = 8 \<and> s ! 2 = CHR '':'' \<and> s ! 5 = CHR '':'' then
        (case (digits_val 0 (take 2 s), digits_val 0 (take 2 (drop 3 s)), digits_val 0 (drop 6 s)) of
           (Some h, Some m, Some sec) \<Rightarrow>
             if h < 24 \<and> m < 60 \<and> sec < 60 then Some (h, m, sec) else None
         | _ \<Rightarrow> None)
      else None)"

definition sample_datetime_fromisoformat :: "string \<Rightarrow> error + pydatetime" where
  "sample_datetime_fromisoformat s =
     (if length s = 10 then
        (case sample_date_fromisoformat s of
           Inl e \<Rightarrow> Inl e
         | Inr d \<Rightarrow> Inr (PyDateTime d 0 0 0 0))
      else if length s = 19 then
        (case (sample_date_fromisoformat (take 10 s), sample_time (drop 11 s)) of
           (Inr d, Some (h, m, sec)) \<Rightarrow> Inr (PyDateTime d h m sec 0)
         | _ \<Rightarrow> Inl (ValueError s))
      else Inl (ValueError s))"

definition sample_construct :: "pytype \<Rightarrow> pyval \<Rightarrow> error + pyval" where
  "sample_construct t v =
     (if t = TInt \<and> isinstance v TStr then
        (if the_str v = [] then Inl (ValueError (the_str v))
         else case digits_val 0 (the_str v) of
                None \<Rightarrow> Inl (ValueError (the_str v))
              | Some n \<Rightarrow> Inr (PInt (int n)))
      else Inl (TypeError (the_str v)))"

definition sample_column_hasattr :: "string \<Rightarrow> bool" where
  "sample_column_hasattr m =
     (m \<in> set [''__lt__'', ''__le__'', ''__eq__'', ''__ne__'', ''__gt__'', ''__ge__'', ''__add__''])"

text \<open>The order in which the sample backend compares two values of one kind.\<close>

fun str_le :: "string \<Rightarrow> string \<Rightarrow> bool" where
  "str_le [] t = True"
| "str_le (x # xs) [] = False"
| "str_le (x # xs) (y # ys) =
     ((of_char x :: nat) < of_char y \<or> (x = y \<and> str_le xs ys))"

fun date_key :: "pydate \<Rightarrow> nat list" where
  "date_key (PyDate y m d) = [y, m, d]"

fun datetime_key :: "pydatetime \<Rightarrow> nat list" where
  "datetime_key (PyDateTime d h mi s us) = date_key d @ [h, mi, s, us]"

fun key_le :: "nat list \<Rightarrow> nat list \<Rightarrow> bool" where
  "key_le [] t = True"
| "key_le (x # xs) [] = False"
| "key_le (x # xs) (y # ys) = (x < y \<or> (x = y \<and> key_le xs ys))"

fun val_le :: "pyval \<Rightarrow> pyval \<Rightarrow> bool" where
  "val_le (PInt a) (PInt b) = (a \<le> b)"
| "val_le (PBool a) (PBool b) = (a \<le> b)"
| "val_le (PStr a) (PStr b) = str_le a b"
| "val_le (PDate a) (PDate b) = key_le (date_key a) (date_key b)"
| "val_le (PDateTime a) (PDateTime b) = key_le (datetime_key a) (datetime_key b)"
| "val_le a b = False"


text \<open>The literal as the sample backend compares it with a cell: a date is bound
  as its ISO string, and a string of digits meets an integer cell as a number.\<close>

definition pad2 :: "nat \<Rightarrow> string" where
  "pad2 n = [''0123456789'' ! (n div 10 mod 10), ''0123456789'' ! (n mod 10)]"

definition iso_date :: "pydate \<Rightarrow> string" where
  "iso_date d = pad2 (year d div 100) @ pad2 (year d mod 100) @ ''-'' @ pad2 (month d) @ ''-'' @ pad2 (day d)"

fun sample_literal :: "pyval \<Rightarrow> pyval \<Rightarrow> pyval" where
  "sample_literal (PStr x) (PDate d) = PStr (iso_date d)"
| "sample_literal (PInt x) (PStr s) =
     (if s = [] then PStr s
      else case digits_val 0 s of None \<Rightarrow> PStr s | Some n \<Rightarrow> PInt (int n))"
| "sample_literal x v = v"

text \<open>A comparison of a cell \<open>x\<close> with a literal \<open>v\<close>. Equality with \<^verbatim>\<open>None\<close> is
  rendered \<^verbatim>\<open>IS NULL\<close> and inequality \<^verbatim>\<open>IS NOT NULL\<close>; every other comparison
  with a \<^verbatim>\<open>NULL\<close> cell selects nothing.\<close>

definition sample_compare :: "string \<Rightarrow> pyval \<Rightarrow> pyval \<Rightarrow> bool" where
  "sample_compare m x v =
     (if m = ''__eq__'' then x = v
      else if m = ''__ne__'' then x \<noteq> PNone \<and> x \<noteq> v
      else if m = ''__le__'' then val_le x v
      else if m = ''__lt__'' then val_le x v \<and> x \<noteq> v
      else if m = ''__ge__'' then val_le v x
      else if m = ''__gt__'' then val_le v x \<and> x \<noteq> v
      else False)"

fun sample_selects :: "sqlexpr \<Rightarrow> row \<Rightarrow> bool" where
  "sample_selects SqlTrue r = True"
| "sample_selects (MethodE c m v) r = sample_compare m (cell r c) (sample_literal (cell r c) v)"
| "sample_selects (BetweenE c a b) r =
     (sample_compare ''__ge__'' (cell r c) (sample_literal (cell r c) a) \<and>
      sample_compare ''__le__'' (cell r c) (sample_literal (cell r c) b))"
| "sample_selects (InE c vs) r =
     (cell r c \<noteq> PNone \<and> list_ex (\<lambda>v. cell r c = sample_literal (cell r c) v) vs)"
| "sample_selects (AndE a b) r = (sample_selects a r \<and> sample_selects b r)"

definition sample_run_text :: "string \<Rightarrow> database \<Rightarrow> (error + row list) \<times> database" where
  "sample_run_text s db =
     (if s = ''SELECT * FROM populated'' then
        (case db ''populated'' of
           None \<Rightarrow> (Inl (OperationalError s), db)
         | Some st \<Rightarrow> (Inr (st_rows st), db))
      else (Inl (OperationalError s), db))"

definition sample_runtime :: runtime where
  "sample_runtime =
     \<lparr>date_fromisoformat = sample_date_fromisoformat,
      datetime_fromisoformat = sample_datetime_fromisoformat,
      construct = sample_construct,
      read_text = (\<lambda>p. Inr ''SELECT * FROM populated''),
      column_hasattr = sample_column_hasattr,
      column_call = (\<lambda>m v. None),
      selects = sample_selects,
      run_text = sample_run_text\<rparr>"

definition sample_table :: table where
  "sample_table = init (Some ''populated'') Engine"

definition events_table :: table where
  "events_table = init (Some ''events'') Engine"

section \<open>Properties of the filter translator\<close>

lemma resolve_column_None: "resolve_column None c = Inr (ColRef None c)"
  by (simp add: resolve_column_def)

lemma to_sql_loop_step:
  assumes "translatable rt None p"
  shows "to_sql_loop rt stmt (p # rest) None =
         to_sql_loop rt (foldl AndE stmt (spec_conjuncts p)) rest None"
proof -
  obtain c v where p: "p = (c, v)" by (cases p)
  show ?thesis
  proof (cases v)
    case (Value x)
    then show ?thesis by (simp add: p resolve_column_None)
  next
    case (Oper oper)
    with assms show ?thesis
      by (cases oper) (simp_all add: p resolve_column_None column_getattr_def)
  qed
qed

lemma to_sql_loop_translatable:
  "list_all (translatable rt None) qry \<Longrightarrow>
   to_sql_loop rt stmt qry None = Inr (foldl AndE stmt (concat (map spec_conjuncts qry)))"
proof (induction qry arbitrary: stmt)
  case Nil
  then show ?case by simp
next
  case (Cons p qry)
  then have p: "translatable rt None p" and rest: "list_all (translatable rt None) qry"
    by simp_all
  show ?case
    by (simp add: to_sql_loop_step [OF p] Cons.IH [OF rest])
qed

lemma to_sql_loop_untranslatable:
  "\<not> list_all (translatable rt None) qry \<Longrightarrow> isl (to_sql_loop rt stmt qry None)"
proof (induction qry arbitrary: stmt)
  case Nil
  then show ?case by simp
next
  case (Cons p qry)
  show ?case
  proof (cases "translatable rt None p")
    case True
    with Cons.prems have "\<not> list_all (translatable rt None) qry" by simp
    then show ?thesis by (simp add: to_sql_loop_step [OF True] Cons.IH)
  next
    case False
    obtain c v where p: "p = (c, v)" by (cases p)
    show ?thesis
    proof (cases v)
      case (Value x)
      with False show ?thesis by (simp add: p resolve_column_None)
    next
      case (Oper oper)
      with False show ?thesis
        by (cases oper) (auto simp: p resolve_column_None column_getattr_def split: option.splits)
    qed
  qed
qed

lemma sql_eval_foldl:
  "sql_eval rt (foldl AndE stmt xs) r = (sql_eval rt stmt r \<and> list_all (\<lambda>x. sql_eval rt x r) xs)"
  by (induction xs arbitrary: stmt) auto

lemma sql_eval_spec_expression:
  "sql_eval rt (spec_expression qry) r =
   list_all (\<lambda>p. list_all (\<lambda>x. sql_eval rt x r) (spec_conjuncts p)) qry"
  by (simp add: spec_expression_def sql_eval_foldl list_all_iff)

lemma sql_eval_between:
  "standard_between rt \<Longrightarrow>
   sql_eval rt (BetweenE c a b) r =
     (sql_eval rt (MethodE c ''__ge__'' a) r \<and> sql_eval rt (MethodE c ''__le__'' b) r)"
  by (simp add: standard_between_def)

text \<open>
  C1. A filter all of whose pairs the translator gets past translates to the
  specification's expression: the conjunction, from \<^verbatim>\<open>true()\<close> on and in the
  filter's order, of \<^verbatim>\<open>column BETWEEN start AND end\<close> for a \<^verbatim>\<open>Between\<close>,
  \<^verbatim>\<open>column IN (values)\<close> for an \<^verbatim>\<open>In\<close> and \<^verbatim>\<open>column == value\<close> for a plain value
  (and the comparison named by its tag for a generic comparator, nothing for
  \<^verbatim>\<open>skip\<close>). That expression selects exactly the rows that the expression of every
  pair selects; a filter with the same pairs in another order translates to an
  expression that selects the same rows; every other filter is not translated;
  and on a backend whose \<^verbatim>\<open>BETWEEN\<close> is the standard's, a row selected through a
  filter that holds \<^verbatim>\<open>Between(a, b)\<close> for a column satisfies \<^verbatim>\<open>column >= a\<close> and
  \<^verbatim>\<open>column <= b\<close>, and that filter alone selects exactly those rows.
\<close>

theorem to_sql_expressions_conjunction:
  "(list_all (translatable rt None) qry \<longrightarrow>
      to_sql_expressions rt qry None = Inr (spec_expression qry)
      \<and> (\<forall>r. sql_eval rt (spec_expression qry) r =
               list_all (\<lambda>p. list_all (\<lambda>x. sql_eval rt x r) (spec_conjuncts p)) qry)
      \<and> (\<forall>qry'. set qry' = set qry \<longrightarrow>
            to_sql_expressions rt qry' None = Inr (spec_expression qry')
            \<and> (\<forall>r. sql_eval rt (spec_expression qry') r = sql_eval rt (spec_expression qry) r))
      \<and> (standard_between rt \<and> (c, Oper (Between a b)) \<in> set qry \<and> sql_eval rt (spec_expression qry) r \<longrightarrow>
            sql_eval rt (MethodE (ColRef None c) ''__ge__'' a) r
            \<and> sql_eval rt (MethodE (ColRef None c) ''__le__'' b) r))
   \<and> (\<not> list_all (translatable rt None) qry \<longrightarrow> isl (to_sql_expressions rt qry None))
   \<and> to_sql_expressions rt [(c, Oper (Between a b))] None
        = Inr (AndE SqlTrue (BetweenE (ColRef None c) a b))
   \<and> (standard_between rt \<longrightarrow>
        sql_eval rt (AndE SqlTrue (BetweenE (ColRef None c) a b)) r =
          (sql_eval rt (MethodE (ColRef None c) ''__ge__'' a) r
           \<and> sql_eval rt (MethodE (ColRef None c) ''__le__'' b) r))"
proof -
  have tr: "to_sql_expressions rt q None = Inr (spec_expression q)"
    if "list_all (translatable rt None) q" for q
    using that by (simp add: to_sql_expressions_def spec_expression_def to_sql_loop_translatable)
  have perm: "to_sql_expressions rt qry' None = Inr (spec_expression qry')
            \<and> (\<forall>r. sql_eval rt (spec_expression qry') r = sql_eval rt (spec_expression qry) r)"
    if t: "list_all (translatable rt None) qry" and s: "set qry' = set qry" for qry'
  proof -
    from t s have "list_all (translatable rt None) qry'" by (simp add: list_all_iff)
    from tr [OF this] s show ?thesis
      by (simp add: sql_eval_spec_expression list_all_iff)
  qed
  have incl: "sql_eval rt (MethodE (ColRef None c) ''__ge__'' a) r
            \<and> sql_eval rt (MethodE (ColRef None c) ''__le__'' b) r"
    if sb: "standard_between rt" and m: "(c, Oper (Between a b)) \<in> set qry"
      and e: "sql_eval rt (spec_expression qry) r"
  proof -
    from e m have "list_all (\<lambda>x. sql_eval rt x r) (spec_conjuncts (c, Oper (Between a b)))"
      unfolding sql_eval_spec_expression list_all_iff by blast
    then have "sql_eval rt (BetweenE (ColRef None c) a b) r" by simp
    with sql_eval_between [OF sb] show ?thesis by blast
  qed
  have one: "to_sql_expressions rt [(c, Oper (Between a b))] None
        = Inr (AndE SqlTrue (BetweenE (ColRef None c) a b))"
    by (simp add: to_sql_expressions_def resolve_column_None)
  have one_eval: "standard_between rt \<longrightarrow>
        sql_eval rt (AndE SqlTrue (BetweenE (ColRef None c) a b)) r =
          (sql_eval rt (MethodE (ColRef None c) ''__ge__'' a) r
           \<and> sql_eval rt (MethodE (ColRef None c) ''__le__'' b) r)"
    using sql_eval_between by simp
  have bad: "\<not> list_all (translatable rt None) qry \<longrightarrow> isl (to_sql_expressions rt qry None)"
    by (simp add: to_sql_expressions_def to_sql_loop_untranslatable)
  show ?thesis
    using tr [of qry] sql_eval_spec_expression [of rt qry] perm incl one one_eval bad
    by blast
qed

lemma sample_runtime_simps:
  "column_hasattr sample_runtime = sample_column_hasattr"
  "column_call sample_runtime = (\<lambda>m v. None)"
  "selects sample_runtime = sample_selects"
  "run_text sample_runtime = sample_run_text"
  "date_fromisoformat sample_runtime = sample_date_fromisoformat"
  "datetime_fromisoformat sample_runtime = sample_datetime_fromisoformat"
  "construct sample_runtime = sample_construct"
  by (simp_all add: sample_runtime_def)

lemma sample_standard_between: "standard_between sample_runtime"
  by (simp add: standard_between_def sample_runtime_simps)

theorem to_sql_expressions_conjunction_witness:
  "list_all (translatable sample_runtime None)
       [(''score'', Oper (Between (PInt 100) (PInt 220))),
        (''name'', Oper (In [PStr ''Jack'', PStr ''John''])),
        (''other'', Oper Skip),
        (''id'', Oper (Comparator ''__ge__'' (PStr ''a''))),
        (''birth_date'', Value (PDate (PyDate 2000 1 1)))]
   \<and> to_sql_expressions sample_runtime
       [(''score'', Oper (Between (PInt 100) (PInt 220))),
        (''name'', Oper (In [PStr ''Jack'', PStr ''John''])),
        (''other'', Oper Skip),
        (''id'', Oper (Comparator ''__ge__'' (PStr ''a''))),
        (''birth_date'', Value (PDate (PyDate 2000 1 1)))] None
     = Inr (AndE (AndE (AndE (AndE SqlTrue
              (BetweenE (ColRef None ''score'') (PInt 100) (PInt 220)))
              (InE (ColRef None ''name'') [PStr ''Jack'', PStr ''John'']))
              (MethodE (ColRef None ''id'') ''__ge__'' (PStr ''a'')))
              (MethodE (ColRef None ''birth_date'') ''__eq__'' (PDate (PyDate 2000 1 1))))
   \<and> standard_between sample_runtime
   \<and> sql_eval sample_runtime
        (AndE (AndE (AndE (AndE SqlTrue
              (BetweenE (ColRef None ''score'') (PInt 100) (PInt 220)))
              (InE (ColRef None ''name'') [PStr ''Jack'', PStr ''John'']))
              (MethodE (ColRef None ''id'') ''__ge__'' (PStr ''a'')))
              (MethodE (ColRef None ''birth_date'') ''__eq__'' (PDate (PyDate 2000 1 1)))) row_a
   \<and> sql_eval sample_runtime (MethodE (ColRef None ''score'') ''__ge__'' (PInt 100)) row_a
   \<and> sql_eval sample_runtime (MethodE (ColRef None ''score'') ''__le__'' (PInt 220)) row_a
   \<and> \<not> list_all (translatable sample_runtime None)
        [(''name'', Value (PStr ''Jack'')), (''score'', Oper (Other ''Like'' (PStr ''1%'')))]
   \<and> isl (to_sql_expressions sample_runtime
        [(''name'', Value (PStr ''Jack'')), (''score'', Oper (Other ''Like'' (PStr ''1%'')))] None)"
proof -
  let ?q = "[(''score'', Oper (Between (PInt 100) (PInt 220))),
        (''name'', Oper (In [PStr ''Jack'', PStr ''John''])),
        (''other'', Oper Skip),
        (''id'', Oper (Comparator ''__ge__'' (PStr ''a''))),
        (''birth_date'', Value (PDate (PyDate 2000 1 1)))]"
  let ?bad = "[(''name'', Value (PStr ''Jack'')), (''score'', Oper (Other ''Like'' (PStr ''1%'')))]"
  have t: "list_all (translatable sample_runtime None) ?q"
    by (simp add: resolve_column_def sample_runtime_simps sample_column_hasattr_def)
  have nb: "\<not> list_all (translatable sample_runtime None) ?bad"
    by simp
  have se: "spec_expression ?q =
     AndE (AndE (AndE (AndE SqlTrue
              (BetweenE (ColRef None ''score'') (PInt 100) (PInt 220)))
              (InE (ColRef None ''name'') [PStr ''Jack'', PStr ''John'']))
              (MethodE (ColRef None ''id'') ''__ge__'' (PStr ''a'')))
              (MethodE (ColRef None ''birth_date'') ''__eq__'' (PDate (PyDate 2000 1 1)))"
    by (simp add: spec_expression_def)
  have ev: "sql_eval sample_runtime (spec_expression ?q) row_a"
    unfolding se
    by (simp add: sample_runtime_simps row_a_def sample_compare_def iso_date_def pad2_def digit_val_def)
  have m: "(''score'', Oper (Between (PInt 100) (PInt 220))) \<in> set ?q" by simp
  note th = to_sql_expressions_conjunction [of sample_runtime ?q "''score''" "PInt 100" "PInt 220" row_a]
  note th' = to_sql_expressions_conjunction [of sample_runtime ?bad "''score''" "PInt 100" "PInt 220" row_a]
  from th t have 1: "to_sql_expressions sample_runtime ?q None = Inr (spec_expression ?q)"
    by blast
  from th t sample_standard_between m ev
  have 2: "sql_eval sample_runtime (MethodE (ColRef None ''score'') ''__ge__'' (PInt 100)) row_a
     \<and> sql_eval sample_runtime (MethodE (ColRef None ''score'') ''__le__'' (PInt 220)) row_a"
    by blast
  from th' nb have 3: "isl (to_sql_expressions sample_runtime ?bad None)"
    by blast
  from t 1 sample_standard_between ev 2 nb 3 show ?thesis
    unfolding se by blast
qed






section \<open>Properties of the type bridge\<close>

lemma format_row_Cons:
  "format_row rt ((cn0, ty0, nl0) # columns) r = Inr r' \<Longrightarrow>
   \<exists>v0 v0' r0. map_of r cn0 = Some v0 \<and> to_native rt v0 ty0 nl0 = Inr v0'
      \<and> format_row rt columns r = Inr r0 \<and> r' = (cn0, v0') # r0"
proof -
  assume a: "format_row rt ((cn0, ty0, nl0) # columns) r = Inr r'"
  show ?thesis
  proof (cases "map_of r cn0")
    case None
    with a show ?thesis by simp
  next
    case (Some v0)
    note s = Some
    show ?thesis
    proof (cases "to_native rt v0 ty0 nl0")
      case (Inl e)
      with a s show ?thesis by simp
    next
      case (Inr v0')
      note n = Inr
      show ?thesis
      proof (cases "format_row rt columns r")
        case (Inl e)
        with a s n show ?thesis by simp
      next
        case (Inr r0)
        with a s n show ?thesis by simp
      qed
    qed
  qed
qed

lemma format_row_cell:
  "format_row rt columns r = Inr r' \<Longrightarrow> distinct (map fst columns) \<Longrightarrow>
   (cn, ty, nullable) \<in> set columns \<Longrightarrow>
   \<exists>v v'. map_of r cn = Some v \<and> to_native rt v ty nullable = Inr v' \<and> map_of r' cn = Some v'"
proof (induction columns arbitrary: r')
  case Nil
  then show ?case by simp
next
  case (Cons col columns)
  obtain cn0 ty0 nl0 where col: "col = (cn0, ty0, nl0)" by (cases col)
  from Cons.prems(1) obtain v0 v0' r0 where
    v0: "map_of r cn0 = Some v0" and n0: "to_native rt v0 ty0 nl0 = Inr v0'"
    and r0: "format_row rt columns r = Inr r0" and r': "r' = (cn0, v0') # r0"
    unfolding col using format_row_Cons by blast
  show ?case
  proof (cases "(cn, ty, nullable) = col")
    case True
    then have "cn = cn0" "ty = ty0" "nullable = nl0" by (simp_all add: col)
    with v0 n0 r' show ?thesis by simp
  next
    case False
    with Cons.prems(3) have mem: "(cn, ty, nullable) \<in> set columns" by simp
    from Cons.prems(2) have dist: "distinct (map fst columns)" and notin: "cn0 \<notin> fst ` set columns"
      by (simp_all add: col)
    from mem have "cn \<in> fst ` set columns" by force
    with notin have ne: "cn \<noteq> cn0" by blast
    from Cons.IH [OF r0 dist mem] obtain v v' where
      "map_of r cn = Some v" "to_native rt v ty nullable = Inr v'" "map_of r0 cn = Some v'"
      by blast
    with ne r' show ?thesis by simp
  qed
qed

lemma format_rows_all2:
  "format_rows rt columns res = Inr res' \<Longrightarrow>
   list_all2 (\<lambda>r r'. format_row rt columns r = Inr r') res res'"
  by (induction res arbitrary: res') (auto split: sum.splits)

lemma format_rows_length: "format_rows rt columns res = Inr res' \<Longrightarrow> length res' = length res"
  by (drule format_rows_all2) (rule list_all2_lengthD [symmetric])

lemma to_native_string:
  "to_native rt (PStr s) Date nullable =
     (case date_fromisoformat rt s of Inl e \<Rightarrow> Inl e | Inr d \<Rightarrow> Inr (PDate d))"
  "to_native rt (PStr s) DateTime nullable =
     (case datetime_fromisoformat rt s of Inl e \<Rightarrow> Inl e | Inr d \<Rightarrow> Inr (PDateTime d))"
  by (simp_all add: to_native_def)

lemma to_native_instance:
  "isinstance v (python_type ty) \<Longrightarrow> to_native rt v ty nullable = Inr v"
  by (simp add: to_native_def)

text \<open>
  C8, as the code has it. A cell that is no instance of the declared class, no
  string in a temporal column and no permitted null is handed to the class itself,
  \<^verbatim>\<open>py_type(value)\<close>, and \<^verbatim>\<open>to_native\<close> returns or raises exactly what that call
  returns or raises: the exception is the constructor's own.
\<close>

theorem to_native_construct:
  assumes "\<not> isinstance v (python_type ty)"
    and "\<not> ((python_type ty = TDate \<or> python_type ty = TDateTime) \<and> isinstance v TStr)"
    and "\<not> (nullable \<and> v = PNone)"
  shows "to_native rt v ty nullable = construct rt (python_type ty) v"
  using assms by (auto simp: to_native_def)

theorem to_native_construct_witness:
  "\<not> isinstance (PStr ''12'') (python_type Integer)
   \<and> \<not> ((python_type Integer = TDate \<or> python_type Integer = TDateTime) \<and> isinstance (PStr ''12'') TStr)
   \<and> \<not> (False \<and> PStr ''12'' = PNone)
   \<and> to_native sample_runtime (PStr ''12'') Integer False = Inr (PInt 12)"
  using to_native_construct [of "PStr ''12''" Integer False sample_runtime]
  by (simp add: sample_runtime_def sample_construct_def digit_val_def)

text \<open>
  C8, as the specification has it, fails: \<^verbatim>\<open>int('abc')\<close> raises \<^verbatim>\<open>ValueError\<close>,
  and that is what \<^verbatim>\<open>to_native\<close> raises for the cell \<^verbatim>\<open>'abc'\<close> of an integer
  column; the exception is no \<^verbatim>\<open>TypeCoercionError\<close> and carries neither the column
  nor the two types.
\<close>

theorem to_native_construct_counterexample:
  "to_native sample_runtime (PStr ''abc'') Integer False = Inl (ValueError ''abc'')
   \<and> exc_class (ValueError ''abc'') \<noteq> ''TypeCoercionError''"
  by (simp add: to_native_def sample_runtime_def sample_construct_def digit_val_def)

section \<open>Properties of the transaction scope\<close>

text \<open>
  C9, as the code has it. With no transaction open (the accessor holds an engine,
  or a connection whose \<^verbatim>\<open>get_transaction()\<close> is \<^verbatim>\<open>None\<close>), \<^verbatim>\<open>commit\<close> and
  \<^verbatim>\<open>rollback\<close> raise \<^verbatim>\<open>AttributeError\<close>, from the attribute lookup, and leave
  the accessor and the store as they were.
\<close>

theorem commit_rollback_no_transaction:
  assumes "engine self = Engine \<or> engine self = Connection None"
  shows "(\<exists>e. commit self db = (Inl e, self, db) \<and> exc_class e = ''AttributeError'')
       \<and> (\<exists>e. rollback self db = (Inl e, self, db) \<and> exc_class e = ''AttributeError'')"
  using assms by (auto simp: commit_def rollback_def get_transaction_def connection_def)

theorem commit_rollback_no_transaction_witness:
  "(engine sample_table = Engine \<or> engine sample_table = Connection None)
   \<and> commit sample_table sample_db = (Inl (AttributeError ''get_transaction''), sample_table, sample_db)
   \<and> rollback sample_table sample_db = (Inl (AttributeError ''get_transaction''), sample_table, sample_db)"
  using commit_rollback_no_transaction [of sample_table sample_db]
  by (auto simp: sample_table_def init_def set_name_def commit_def rollback_def
      get_transaction_def connection_def)

text \<open>
  C9, as the specification has it, fails: on an accessor made with an engine,
  \<^verbatim>\<open>commit\<close> raises \<^verbatim>\<open>AttributeError\<close>, not a \<^verbatim>\<open>NoActiveTransactionError\<close>; the
  same on a connection with no transaction in progress.
\<close>

theorem commit_counterexample:
  "fst (commit sample_table sample_db) = Inl (AttributeError ''get_transaction'')
   \<and> exc_class (AttributeError ''get_transaction'') \<noteq> ''NoActiveTransactionError''
   \<and> fst (rollback (sample_table\<lparr>engine := Connection None\<rparr>) sample_db)
        = Inl (AttributeError ''rollback'')
   \<and> exc_class (AttributeError ''rollback'') \<noteq> ''NoActiveTransactionError''"
  by (simp add: sample_table_def init_def set_name_def commit_def rollback_def
      get_transaction_def connection_def)

section \<open>Properties of the statement dispatcher\<close>

lemma object_cached: "ivar_object self = Some obj \<Longrightarrow> object self db = Inr (obj, self)"
  by (simp add: object_def)

lemma object_result:
  assumes "object self db = Inr (obj, self1)"
  shows "ivar_object self1 = Some obj"
    and "ivar_object self \<noteq> None \<Longrightarrow> self1 = self"
    and "self1 = self\<lparr>ivar_object := Some obj\<rparr>"
  using assms
  by (auto simp: object_def reflect_def split: option.splits sum.splits)

lemma name_resolved: "ivar_object self = Some obj \<Longrightarrow> name self = Some (tbl_name obj)"
  by (simp add: name_def)

lemma name_None: "name self = None \<Longrightarrow> ivar_object self = None"
  by (simp add: name_def split: option.splits)

lemma execute_db_execute: "execute rt self (ArgStmt stmt) db = db_execute rt stmt db"
  by (cases "connection self") (simp_all add: execute_def)

lemma execute_text: "execute rt self (ArgStr s) db = run_text rt s db"
  by (cases "connection self") (simp_all add: execute_def)

lemma get_types_cached:
  "ivar_object self = Some obj \<Longrightarrow> get_types self db = Inr (column_types obj, self)"
  by (simp add: get_types_def object_cached)

lemma format_results_cached:
  "ivar_object self = Some obj \<Longrightarrow>
   format_results rt self res db = (format_rows rt (column_types obj) res, self)"
  by (simp add: format_results_def get_types_cached)

text \<open>
  C10. On an accessor whose table name is \<^verbatim>\<open>None\<close>, \<^verbatim>\<open>select\<close> with raw text
  returns what \<^verbatim>\<open>execute\<close> returns for that text, rows and cells as the backend
  delivered them, and leaves the accessor as it was; so does the module-level
  \<^verbatim>\<open>select\<close> called without a table.
\<close>

theorem select_without_table:
  "(name self = None \<longrightarrow>
      select rt self (Some (QText s)) db =
        (fst (execute rt self (ArgStr s) db), self, snd (execute rt self (ArgStr s) db)))
   \<and> module_select rt eng None (Some (QText s)) db =
        (fst (module_execute rt eng (ArgStr s) db), init None eng,
         snd (module_execute rt eng (ArgStr s) db))"
proof -
  have a: "select rt self (Some (QText s)) db =
        (fst (execute rt self (ArgStr s) db), self, snd (execute rt self (ArgStr s) db))"
    if "name self = None" for self
    using that
    by (cases "run_text rt s db")
       (simp add: select_def select_query_def execute_db_execute execute_text split: sum.splits)
  have "name (init None eng) = None"
    by (simp add: init_def set_name_def name_def)
  with a show ?thesis
    by (simp add: module_select_def module_execute_def)
qed

theorem select_without_table_witness:
  "name (init None Engine) = None
   \<and> select sample_runtime (init None Engine) (Some (QText ''SELECT * FROM populated'')) sample_db
      = (Inr [row_a, row_b, row_c], init None Engine, sample_db)
   \<and> map_of row_a ''birth_date'' = Some (PStr ''2000-01-01'')"
  using select_without_table [of "init None Engine" sample_runtime "''SELECT * FROM populated''"
      sample_db Engine]
  by (simp add: init_def set_name_def name_def execute_text sample_runtime_def sample_run_text_def
      sample_db_def row_a_def)

lemma where_known_true: "where_known n st SqlTrue"
  by (simp add: where_known_def)

lemma select_expression:
  assumes "select_query rt q = Inr (Inr w)" and "object self db = Inr (obj, self1)"
  shows "select rt self q db =
     (case db (tbl_name obj) of
        None \<Rightarrow> (Inl (OperationalError (tbl_name obj)), self1, db)
      | Some st \<Rightarrow>
          if where_known (tbl_name obj) st w
          then (format_rows rt (column_types obj) (filter (sql_eval rt w) (st_rows st)), self1, db)
          else (Inl (OperationalError (tbl_name obj)), self1, db))"
proof -
  from assms(2) have o1: "ivar_object self1 = Some obj" by (rule object_result(1))
  then have n1: "name self1 = Some (tbl_name obj)" by (rule name_resolved)
  show ?thesis
    using assms
    by (simp add: select_def execute_db_execute n1 format_results_cached [OF o1]
        split: option.splits)
qed

lemma select_expression_fails:
  assumes "select_query rt q = Inr (Inr w)" and "object self db = Inl e"
  shows "select rt self q db = (Inl e, self, db)"
  using assms by (simp add: select_def)

text \<open>
  C4. The empty filter translates to \<^verbatim>\<open>true()\<close>, which selects every row;
  \<^verbatim>\<open>select\<close> with the empty filter is \<^verbatim>\<open>select\<close> with no filter, in result and in
  effect; and on a table the backend has, both return all of the table's rows, each
  passed through the type bridge.
\<close>

theorem select_empty_filter:
  "to_sql_expressions rt [] table = Inr SqlTrue
   \<and> sql_eval rt SqlTrue r
   \<and> select rt self (Some (QDict [])) db = select rt self None db
   \<and> (object self db = Inr (obj, self1) \<and> db (tbl_name obj) = Some st \<longrightarrow>
        select rt self None db = (format_rows rt (column_types obj) (st_rows st), self1, db))"
proof -
  have a: "to_sql_expressions rt [] table = Inr SqlTrue" for table
    by (simp add: to_sql_expressions_def)
  have q: "select_query rt (Some (QDict [])) = select_query rt None"
    by (simp add: select_query_def a)
  have b: "select rt self (Some (QDict [])) db = select rt self None db"
    by (simp add: select_def q)
  have c: "object self db = Inr (obj, self1) \<and> db (tbl_name obj) = Some st \<longrightarrow>
        select rt self None db = (format_rows rt (column_types obj) (st_rows st), self1, db)"
  proof
    assume h: "object self db = Inr (obj, self1) \<and> db (tbl_name obj) = Some st"
    have "select_query rt None = Inr (Inr SqlTrue)" by (simp add: select_query_def)
    from select_expression [OF this] h
    show "select rt self None db = (format_rows rt (column_types obj) (st_rows st), self1, db)"
      by (simp add: where_known_true)
  qed
  from a b c show ?thesis by simp
qed

lemma sample_object:
  "object sample_table sample_db =
     Inr (\<lparr>tbl_name = ''populated'', tbl_columns = populated_columns\<rparr>,
          sample_table\<lparr>ivar_object := Some \<lparr>tbl_name = ''populated'', tbl_columns = populated_columns\<rparr>\<rparr>)"
  by (simp add: object_def reflect_def reflect_table_def sample_table_def init_def set_name_def
      name_def sample_db_def)

lemma sample_format_rows:
  "format_rows sample_runtime (column_types \<lparr>tbl_name = ''populated'', tbl_columns = populated_columns\<rparr>)
     [row_a, row_b, row_c] =
   Inr [[(''id'', PStr ''a''), (''name'', PStr ''Jack''),
         (''birth_date'', PDate (PyDate 2000 1 1)), (''score'', PInt 100)],
        [(''id'', PStr ''b''), (''name'', PStr ''John''),
         (''birth_date'', PDate (PyDate 1990 1 1)), (''score'', PInt 200)],
        [(''id'', PStr ''c''), (''name'', PStr ''James''),
         (''birth_date'', PDate (PyDate 2020 1 1)), (''score'', PInt 300)]]"
  by (simp add: column_types_def populated_columns_def row_a_def row_b_def row_c_def to_native_def
      sample_runtime_def sample_date_fromisoformat_def digit_val_def days_in_month_def)

theorem select_empty_filter_witness:
  "object sample_table sample_db =
     Inr (\<lparr>tbl_name = ''populated'', tbl_columns = populated_columns\<rparr>,
          sample_table\<lparr>ivar_object := Some \<lparr>tbl_name = ''populated'', tbl_columns = populated_columns\<rparr>\<rparr>)
   \<and> sample_db ''populated'' = Some \<lparr>st_columns = populated_columns, st_rows = [row_a, row_b, row_c]\<rparr>
   \<and> fst (select sample_runtime sample_table (Some (QDict [])) sample_db) =
      Inr [[(''id'', PStr ''a''), (''name'', PStr ''Jack''),
            (''birth_date'', PDate (PyDate 2000 1 1)), (''score'', PInt 100)],
           [(''id'', PStr ''b''), (''name'', PStr ''John''),
            (''birth_date'', PDate (PyDate 1990 1 1)), (''score'', PInt 200)],
           [(''id'', PStr ''c''), (''name'', PStr ''James''),
            (''birth_date'', PDate (PyDate 2020 1 1)), (''score'', PInt 300)]]"
proof -
  let ?obj = "\<lparr>tbl_name = ''populated'', tbl_columns = populated_columns\<rparr>"
  let ?st = "\<lparr>st_columns = populated_columns, st_rows = [row_a, row_b, row_c]\<rparr>"
  have d: "sample_db ''populated'' = Some ?st"
    by (simp add: sample_db_def)
  have d': "sample_db (tbl_name ?obj) = Some ?st"
    by (simp add: sample_db_def)
  note t = select_empty_filter [of sample_runtime None row_a sample_table sample_db
      ?obj "sample_table\<lparr>ivar_object := Some ?obj\<rparr>" ?st]
  from t have eq: "select sample_runtime sample_table (Some (QDict [])) sample_db
      = select sample_runtime sample_table None sample_db"
    by blast
  from t sample_object d' have sel: "select sample_runtime sample_table None sample_db
      = (format_rows sample_runtime (column_types ?obj) (st_rows ?st),
         sample_table\<lparr>ivar_object := Some ?obj\<rparr>, sample_db)"
    by blast
  have "st_rows ?st = [row_a, row_b, row_c]" by simp
  with sel eq sample_format_rows
  have "fst (select sample_runtime sample_table (Some (QDict [])) sample_db) =
      Inr [[(''id'', PStr ''a''), (''name'', PStr ''Jack''),
            (''birth_date'', PDate (PyDate 2000 1 1)), (''score'', PInt 100)],
           [(''id'', PStr ''b''), (''name'', PStr ''John''),
            (''birth_date'', PDate (PyDate 1990 1 1)), (''score'', PInt 200)],
           [(''id'', PStr ''c''), (''name'', PStr ''James''),
            (''birth_date'', PDate (PyDate 2020 1 1)), (''score'', PInt 300)]]"
    by (simp only: fst_conv)
  with sample_object d show ?thesis by blast
qed

lemma structured_query:
  assumes "structured q" and "select rt self q db = (Inr rows, self', db')"
  shows "\<exists>w. select_query rt q = Inr (Inr w) \<and> (q = None \<longrightarrow> w = SqlTrue)
     \<and> (\<forall>w0. q = Some w0 \<longrightarrow> translate_where rt w0 = Inr (QExpr w))"
proof (cases q)
  case None
  then show ?thesis by (simp add: select_query_def)
next
  case (Some w0)
  show ?thesis
  proof (cases w0)
    case (QDict d)
    show ?thesis
    proof (cases "to_sql_expressions rt d None")
      case (Inl e)
      with assms(2) Some QDict show ?thesis by (simp add: select_def select_query_def)
    next
      case (Inr w)
      with Some QDict show ?thesis
        by (simp add: select_query_def translate_where_def)
    qed
  next
    case (QExpr w)
    with Some show ?thesis
      by (simp add: select_query_def translate_where_def)
  next
    case (QText s)
    with assms(1) Some show ?thesis by simp
  next
    case (QPath p)
    with assms(1) Some show ?thesis by simp
  qed
qed

lemma select_text_named:
  assumes "name self = Some n" and "run_text rt s db = (Inr res, db1)"
    and "get_types self db1 = Inr (cols, self2)"
  shows "select rt self (Some (QText s)) db = (format_rows rt cols res, self2, db1)"
  using assms
  by (simp add: select_def select_query_def execute_db_execute format_results_def)

lemma count_expression:
  assumes "object self db = Inr (obj, self1)" and "db (tbl_name obj) = Some st"
    and "q = None \<Longrightarrow> w = SqlTrue"
    and "\<And>w0. q = Some w0 \<Longrightarrow> translate_where rt w0 = Inr (QExpr w)"
    and "where_known (tbl_name obj) st w"
  shows "count rt self q db = (Inr (PInt (int (length (filter (sql_eval rt w) (st_rows st))))), self1, db)"
proof (cases q)
  case None
  with assms(3) have "w = SqlTrue" by simp
  with None assms(1,2) show ?thesis
    by (simp add: count_def execute_db_execute)
next
  case (Some w0)
  with assms(4) have "translate_where rt w0 = Inr (QExpr w)" by simp
  with Some assms(1,2,5) show ?thesis
    by (simp add: count_def execute_db_execute where_coerce_def)
qed

text \<open>
  C2, as the code has it. For no filter, a dict filter or a backend expression:
  when \<^verbatim>\<open>list(select(F))\<close> returns, \<^verbatim>\<open>count(F)\<close> returns its length (0 when no row
  matches) and leaves the same accessor and store; and when \<^verbatim>\<open>count(F)\<close> returns,
  \<^verbatim>\<open>select(F)\<close> yields that many rows unless the type bridge raises on one of them.
\<close>

theorem count_select_length:
  "(structured q \<and> select rt self q db = (Inr rows, self', db') \<longrightarrow>
      count rt self q db = (Inr (PInt (int (length rows))), self', db'))
   \<and> (structured q \<and> select rt self q db = (Inr [], self', db') \<longrightarrow>
      count rt self q db = (Inr (PInt 0), self', db'))"
proof -
  have main: "count rt self q db = (Inr (PInt (int (length rows))), self', db')"
    if s: "structured q" and sel: "select rt self q db = (Inr rows, self', db')" for rows
  proof -
    from structured_query [OF s sel] obtain w where q: "select_query rt q = Inr (Inr w)"
      and qn: "q = None \<Longrightarrow> w = SqlTrue"
      and qs: "\<And>w0. q = Some w0 \<Longrightarrow> translate_where rt w0 = Inr (QExpr w)"
      by blast
    show ?thesis
    proof (cases "object self db")
      case (Inl e)
      from select_expression_fails [OF q Inl] sel show ?thesis by simp
    next
      case (Inr p)
      obtain obj self1 where p: "p = (obj, self1)" by (cases p)
      note o = Inr [unfolded p]
      note se = select_expression [OF q o]
      show ?thesis
      proof (cases "db (tbl_name obj)")
        case None
        with se sel show ?thesis by simp
      next
        case (Some st)
        show ?thesis
        proof (cases "where_known (tbl_name obj) st w")
          case False
          with se sel Some show ?thesis by simp
        next
          case True
          with se sel Some have fr: "format_rows rt (column_types obj) (filter (sql_eval rt w) (st_rows st)) = Inr rows"
            and e1: "self' = self1" and e2: "db' = db" by simp_all
          from format_rows_length [OF fr] count_expression [OF o Some qn qs True] e1 e2
          show ?thesis by simp
        qed
      qed
    qed
  qed
  from main [of rows] main [of "[]"] show ?thesis by simp
qed

lemma sample_where_known:
  "where_known ''populated'' \<lparr>st_columns = populated_columns, st_rows = rs\<rparr>
     (AndE SqlTrue (InE (ColRef None ''name'') vs))"
  by (simp add: where_known_def column_known_def populated_columns_def)

theorem count_select_length_witness:
  "structured (Some (QDict [(''name'', Oper (In [PStr ''Jack'', PStr ''John'']))]))
   \<and> fst (select sample_runtime sample_table
            (Some (QDict [(''name'', Oper (In [PStr ''Jack'', PStr ''John'']))])) sample_db)
      = Inr [[(''id'', PStr ''a''), (''name'', PStr ''Jack''),
              (''birth_date'', PDate (PyDate 2000 1 1)), (''score'', PInt 100)],
             [(''id'', PStr ''b''), (''name'', PStr ''John''),
              (''birth_date'', PDate (PyDate 1990 1 1)), (''score'', PInt 200)]]
   \<and> fst (count sample_runtime sample_table
            (Some (QDict [(''name'', Oper (In [PStr ''Jack'', PStr ''John'']))])) sample_db)
      = Inr (PInt 2)"
proof -
  let ?q = "Some (QDict [(''name'', Oper (In [PStr ''Jack'', PStr ''John'']))])"
  let ?obj = "\<lparr>tbl_name = ''populated'', tbl_columns = populated_columns\<rparr>"
  let ?rows = "[[(''id'', PStr ''a''), (''name'', PStr ''Jack''),
              (''birth_date'', PDate (PyDate 2000 1 1)), (''score'', PInt 100)],
             [(''id'', PStr ''b''), (''name'', PStr ''John''),
              (''birth_date'', PDate (PyDate 1990 1 1)), (''score'', PInt 200)]]"
  have q: "select_query sample_runtime ?q
      = Inr (Inr (AndE SqlTrue (InE (ColRef None ''name'') [PStr ''Jack'', PStr ''John''])))"
    by (simp add: select_query_def to_sql_expressions_def resolve_column_def)
  have fl: "filter (sql_eval sample_runtime (AndE SqlTrue (InE (ColRef None ''name'') [PStr ''Jack'', PStr ''John''])))
      [row_a, row_b, row_c] = [row_a, row_b]"
    by (simp add: row_a_def row_b_def row_c_def sample_runtime_simps)
  have fr: "format_rows sample_runtime (column_types ?obj) [row_a, row_b] = Inr ?rows"
    by (simp add: column_types_def populated_columns_def row_a_def row_b_def to_native_def
      sample_runtime_def sample_date_fromisoformat_def digit_val_def days_in_month_def)
  let ?st = "\<lparr>st_columns = populated_columns, st_rows = [row_a, row_b, row_c]\<rparr>"
  have d: "sample_db (tbl_name ?obj) = Some ?st"
    by (simp add: sample_db_def)
  have wk: "where_known (tbl_name ?obj) ?st
      (AndE SqlTrue (InE (ColRef None ''name'') [PStr ''Jack'', PStr ''John'']))"
    by (simp add: sample_where_known)
  have rs: "st_rows ?st = [row_a, row_b, row_c]" by simp
  have sel: "select sample_runtime sample_table ?q sample_db
      = (Inr ?rows, sample_table\<lparr>ivar_object := Some ?obj\<rparr>, sample_db)"
    unfolding select_expression [OF q sample_object] d option.case rs fl fr
    using wk by (simp only: if_True)
  have s: "structured ?q" by simp
  from count_select_length [of ?q sample_runtime sample_table sample_db ?rows
      "sample_table\<lparr>ivar_object := Some ?obj\<rparr>" sample_db] s sel
  have "count sample_runtime sample_table ?q sample_db
      = (Inr (PInt (int (length ?rows))), sample_table\<lparr>ivar_object := Some ?obj\<rparr>, sample_db)"
    by blast
  then have "fst (count sample_runtime sample_table ?q sample_db) = Inr (PInt 2)"
    by simp
  with s sel show ?thesis by simp
qed

text \<open>
  C2, as the specification has it, fails for raw text: \<^verbatim>\<open>select\<close> runs the text as
  a statement and returns its rows, while \<^verbatim>\<open>count\<close> hands the same text to
  \<^verbatim>\<open>where()\<close>, which refuses it.
\<close>

theorem count_select_length_counterexample:
  "fst (select sample_runtime sample_table (Some (QText ''SELECT * FROM populated'')) sample_db)
      = Inr [[(''id'', PStr ''a''), (''name'', PStr ''Jack''),
              (''birth_date'', PDate (PyDate 2000 1 1)), (''score'', PInt 100)],
             [(''id'', PStr ''b''), (''name'', PStr ''John''),
              (''birth_date'', PDate (PyDate 1990 1 1)), (''score'', PInt 200)],
             [(''id'', PStr ''c''), (''name'', PStr ''James''),
              (''birth_date'', PDate (PyDate 2020 1 1)), (''score'', PInt 300)]]
   \<and> fst (count sample_runtime sample_table (Some (QText ''SELECT * FROM populated'')) sample_db)
      = Inl (ArgumentError ''SELECT * FROM populated'')"
proof -
  let ?obj = "\<lparr>tbl_name = ''populated'', tbl_columns = populated_columns\<rparr>"
  have n: "name sample_table = Some ''populated''"
    by (simp add: sample_table_def init_def set_name_def name_def)
  have ex: "run_text sample_runtime ''SELECT * FROM populated'' sample_db
      = (Inr [row_a, row_b, row_c], sample_db)"
    by (simp add: sample_runtime_def sample_run_text_def sample_db_def)
  have gt: "get_types sample_table sample_db
      = Inr (column_types ?obj, sample_table\<lparr>ivar_object := Some ?obj\<rparr>)"
    by (simp add: get_types_def sample_object)
  have "fst (select sample_runtime sample_table (Some (QText ''SELECT * FROM populated'')) sample_db)
      = format_rows sample_runtime (column_types ?obj) [row_a, row_b, row_c]"
    unfolding select_text_named [OF n ex gt] by (simp only: fst_conv)
  moreover have "fst (count sample_runtime sample_table (Some (QText ''SELECT * FROM populated'')) sample_db)
      = Inl (ArgumentError ''SELECT * FROM populated'')"
    by (simp add: count_def sample_object translate_where_def where_coerce_def)
  ultimately show ?thesis by (simp only: sample_format_rows simp_thms)
qed

text \<open>
  C5, as the code has it. \<^verbatim>\<open>delete\<close> and \<^verbatim>\<open>update\<close>, like \<^verbatim>\<open>select\<close>, translate
  a dict filter with \<^verbatim>\<open>to_sql_expressions\<close> and then do what they do for the
  expression obtained; an expression is passed through as the \<^verbatim>\<open>WHERE\<close> clause of
  the statement that is executed. Raw text is not accepted: it is never run, both
  methods raise and leave the store as it was.
\<close>

theorem delete_update_filter_forms:
  "delete rt self (QDict d) db =
     (case to_sql_expressions rt d None of
        Inl e \<Rightarrow> (Inl e, self, db)
      | Inr w \<Rightarrow> delete rt self (QExpr w) db)
   \<and> update rt self (QDict d) vals db =
     (case to_sql_expressions rt d None of
        Inl e \<Rightarrow> (Inl e, self, db)
      | Inr w \<Rightarrow> update rt self (QExpr w) vals db)
   \<and> select rt self (Some (QDict d)) db =
     (case to_sql_expressions rt d None of
        Inl e \<Rightarrow> (Inl e, self, db)
      | Inr w \<Rightarrow> select rt self (Some (QExpr w)) db)
   \<and> (object self db = Inr (obj, self1) \<longrightarrow>
        delete rt self (QExpr w) db =
          (case db_execute rt (DeleteStmt obj w) db of
             (Inl e, db1) \<Rightarrow> (Inl e, self1, db1)
           | (Inr rows, db1) \<Rightarrow> (Inr (), self1, db1))
      \<and> update rt self (QExpr w) vals db =
          (case db_execute rt (UpdateStmt obj w vals) db of
             (Inl e, db1) \<Rightarrow> (Inl e, self1, db1)
           | (Inr rows, db1) \<Rightarrow> (Inr (), self1, db1)))
   \<and> isl (fst (delete rt self (QText s) db))
   \<and> snd (snd (delete rt self (QText s) db)) = db
   \<and> isl (fst (update rt self (QText s) vals db))
   \<and> snd (snd (update rt self (QText s) vals db)) = db"
proof -
  have a: "delete rt self (QDict d) db =
     (case to_sql_expressions rt d None of
        Inl e \<Rightarrow> (Inl e, self, db)
      | Inr w \<Rightarrow> delete rt self (QExpr w) db)"
    by (simp add: delete_def translate_where_def split: sum.splits)
  have b: "update rt self (QDict d) vals db =
     (case to_sql_expressions rt d None of
        Inl e \<Rightarrow> (Inl e, self, db)
      | Inr w \<Rightarrow> update rt self (QExpr w) vals db)"
    by (simp add: update_def translate_where_def split: sum.splits)
  have c: "select rt self (Some (QDict d)) db =
     (case to_sql_expressions rt d None of
        Inl e \<Rightarrow> (Inl e, self, db)
      | Inr w \<Rightarrow> select rt self (Some (QExpr w)) db)"
    by (simp add: select_def select_query_def split: sum.splits)
  have e: "object self db = Inr (obj, self1) \<longrightarrow>
        delete rt self (QExpr w) db =
          (case db_execute rt (DeleteStmt obj w) db of
             (Inl e, db1) \<Rightarrow> (Inl e, self1, db1)
           | (Inr rows, db1) \<Rightarrow> (Inr (), self1, db1))
      \<and> update rt self (QExpr w) vals db =
          (case db_execute rt (UpdateStmt obj w vals) db of
             (Inl e, db1) \<Rightarrow> (Inl e, self1, db1)
           | (Inr rows, db1) \<Rightarrow> (Inr (), self1, db1))"
    by (simp add: delete_def update_def translate_where_def where_coerce_def execute_db_execute)
  have f: "isl (fst (delete rt self (QText s) db)) \<and> snd (snd (delete rt self (QText s) db)) = db"
    by (cases "object self db")
       (auto simp: delete_def translate_where_def where_coerce_def)
  have g: "isl (fst (update rt self (QText s) vals db)) \<and> snd (snd (update rt self (QText s) vals db)) = db"
    by (cases "object self db")
       (auto simp: update_def translate_where_def where_coerce_def)
  from a b c e f g show ?thesis by blast
qed

theorem delete_update_filter_forms_witness:
  "object sample_table sample_db =
     Inr (\<lparr>tbl_name = ''populated'', tbl_columns = populated_columns\<rparr>,
          sample_table\<lparr>ivar_object := Some \<lparr>tbl_name = ''populated'', tbl_columns = populated_columns\<rparr>\<rparr>)
   \<and> fst (delete sample_runtime sample_table (QDict [(''name'', Oper (In [PStr ''Jack'', PStr ''John'']))])
           sample_db) = Inr ()
   \<and> map_option st_rows
        (snd (snd (delete sample_runtime sample_table
                     (QDict [(''name'', Oper (In [PStr ''Jack'', PStr ''John'']))]) sample_db))
           ''populated'')
      = Some [row_c]"
proof -
  let ?obj = "\<lparr>tbl_name = ''populated'', tbl_columns = populated_columns\<rparr>"
  let ?w = "AndE SqlTrue (InE (ColRef None ''name'') [PStr ''Jack'', PStr ''John''])"
  let ?d = "[(''name'', Oper (In [PStr ''Jack'', PStr ''John'']))]"
  have tr: "to_sql_expressions sample_runtime ?d None = Inr ?w"
    by (simp add: to_sql_expressions_def resolve_column_def)
  have ex: "db_execute sample_runtime (DeleteStmt ?obj ?w) sample_db
      = (Inr [], sample_db(''populated'' \<mapsto> \<lparr>st_columns = populated_columns, st_rows = [row_c]\<rparr>))"
    by (simp add: sample_db_def sample_where_known row_a_def row_b_def row_c_def sample_runtime_simps)
  note t = delete_update_filter_forms [of sample_runtime sample_table ?d sample_db "[]" ?obj
      "sample_table\<lparr>ivar_object := Some ?obj\<rparr>" ?w "''x''"]
  from t have "delete sample_runtime sample_table (QDict ?d) sample_db =
     (case to_sql_expressions sample_runtime ?d None of
        Inl e \<Rightarrow> (Inl e, sample_table, sample_db)
      | Inr w \<Rightarrow> delete sample_runtime sample_table (QExpr w) sample_db)"
    by blast
  then have 1: "delete sample_runtime sample_table (QDict ?d) sample_db
      = delete sample_runtime sample_table (QExpr ?w) sample_db"
    by (simp only: tr sum.case)
  from t sample_object have 2: "delete sample_runtime sample_table (QExpr ?w) sample_db =
          (case db_execute sample_runtime (DeleteStmt ?obj ?w) sample_db of
             (Inl e, db1) \<Rightarrow> (Inl e, sample_table\<lparr>ivar_object := Some ?obj\<rparr>, db1)
           | (Inr rows, db1) \<Rightarrow> (Inr (), sample_table\<lparr>ivar_object := Some ?obj\<rparr>, db1))"
    by blast
  have "delete sample_runtime sample_table (QDict ?d) sample_db
      = (Inr (), sample_table\<lparr>ivar_object := Some ?obj\<rparr>,
         sample_db(''populated'' \<mapsto> \<lparr>st_columns = populated_columns, st_rows = [row_c]\<rparr>))"
    unfolding 1 2 ex by simp
  with sample_object show ?thesis by simp
qed

text \<open>
  C5, as the specification has it, fails for raw text: \<^verbatim>\<open>select\<close> passes the text
  to the backend and returns its rows, while \<^verbatim>\<open>delete\<close> and \<^verbatim>\<open>update\<close> hand it to
  \<^verbatim>\<open>where()\<close>, which refuses it.
\<close>

theorem delete_update_filter_forms_counterexample:
  "isl (fst (delete sample_runtime sample_table (QText ''SELECT * FROM populated'') sample_db))
   \<and> fst (delete sample_runtime sample_table (QText ''SELECT * FROM populated'') sample_db)
      = Inl (ArgumentError ''SELECT * FROM populated'')
   \<and> fst (update sample_runtime sample_table (QText ''SELECT * FROM populated'')
            [(''score'', PInt 0)] sample_db)
      = Inl (ArgumentError ''SELECT * FROM populated'')
   \<and> \<not> isl (fst (select sample_runtime sample_table (Some (QText ''SELECT * FROM populated'')) sample_db))"
proof -
  let ?obj = "\<lparr>tbl_name = ''populated'', tbl_columns = populated_columns\<rparr>"
  have n: "name sample_table = Some ''populated''"
    by (simp add: sample_table_def init_def set_name_def name_def)
  have ex: "run_text sample_runtime ''SELECT * FROM populated'' sample_db
      = (Inr [row_a, row_b, row_c], sample_db)"
    by (simp add: sample_runtime_def sample_run_text_def sample_db_def)
  have gt: "get_types sample_table sample_db
      = Inr (column_types ?obj, sample_table\<lparr>ivar_object := Some ?obj\<rparr>)"
    by (simp add: get_types_def sample_object)
  have "fst (select sample_runtime sample_table (Some (QText ''SELECT * FROM populated'')) sample_db)
      = format_rows sample_runtime (column_types ?obj) [row_a, row_b, row_c]"
    unfolding select_text_named [OF n ex gt] by (simp only: fst_conv)
  then have s: "\<not> isl (fst (select sample_runtime sample_table (Some (QText ''SELECT * FROM populated'')) sample_db))"
    by (simp only: sample_format_rows sum.disc simp_thms)
  have d: "fst (delete sample_runtime sample_table (QText ''SELECT * FROM populated'') sample_db)
      = Inl (ArgumentError ''SELECT * FROM populated'')"
    by (simp add: delete_def sample_object translate_where_def where_coerce_def)
  have u: "fst (update sample_runtime sample_table (QText ''SELECT * FROM populated'')
            [(''score'', PInt 0)] sample_db)
      = Inl (ArgumentError ''SELECT * FROM populated'')"
    by (simp add: update_def sample_object translate_where_def where_coerce_def)
  from s d u show ?thesis by simp
qed

section \<open>The schema handle\<close>

lemma object_lazy:
  "object self db = Inr (obj, s1) \<Longrightarrow>
   s1 = self \<or> (ivar_object self = None \<and> s1 = self\<lparr>ivar_object := Some obj\<rparr>)"
  by (auto simp: object_def reflect_def split: option.splits sum.splits)

lemma format_results_lazy:
  "format_results rt self res db = (r, s2) \<Longrightarrow>
   s2 = self \<or> (ivar_object self = None \<and> (\<exists>obj. s2 = self\<lparr>ivar_object := Some obj\<rparr>))"
proof (cases "object self db")
  case (Inl e)
  assume "format_results rt self res db = (r, s2)"
  with Inl show ?thesis by (simp add: format_results_def get_types_def)
next
  case (Inr p)
  assume a: "format_results rt self res db = (r, s2)"
  obtain obj s1 where p: "p = (obj, s1)" by (cases p)
  from a Inr have "s2 = s1" by (simp add: format_results_def get_types_def p)
  with object_lazy [OF Inr [unfolded p]] show ?thesis by blast
qed

lemma select_lazy:
  assumes "select rt self q db = (r, s', db')"
  shows "s' = self \<or> (ivar_object self = None \<and> (\<exists>obj. s' = self\<lparr>ivar_object := Some obj\<rparr>))"
proof (cases "select_query rt q")
  case (Inl e)
  with assms show ?thesis by (simp add: select_def)
next
  case (Inr q1)
  note q = Inr
  show ?thesis
  proof (cases q1)
    case (Inl s)
    note t = Inl
    obtain res db1 where ex: "run_text rt s db = (res, db1)" by (cases "run_text rt s db")
    show ?thesis
    proof (cases res)
      case (Inl e)
      with assms q t ex show ?thesis by (simp add: select_def execute_db_execute)
    next
      case (Inr rows)
      show ?thesis
      proof (cases "name self = None")
        case True
        with assms q t ex Inr show ?thesis by (simp add: select_def execute_db_execute)
      next
        case False
        obtain r2 s2 where fr: "format_results rt self rows db1 = (r2, s2)"
          by (cases "format_results rt self rows db1")
        with assms q t ex Inr False have "s' = s2"
          by (simp add: select_def execute_db_execute)
        with format_results_lazy [OF fr] show ?thesis by simp
      qed
    qed
  next
    case (Inr w)
    show ?thesis
    proof (cases "object self db")
      case (Inl e)
      from select_expression_fails [OF q [unfolded Inr] Inl] assms show ?thesis by simp
    next
      case o: (Inr p)
      obtain obj s1 where p: "p = (obj, s1)" by (cases p)
      from select_expression [OF q [unfolded Inr] o [unfolded p]] assms have "s' = s1"
        by (simp split: option.splits if_splits)
      with object_lazy [OF o [unfolded p]] show ?thesis by blast
    qed
  qed
qed

lemma dml_lazy:
  "insert_row rt self data db = (r, s', db') \<Longrightarrow>
     s' = self \<or> (ivar_object self = None \<and> (\<exists>obj. s' = self\<lparr>ivar_object := Some obj\<rparr>))"
  "delete rt self w db = (r, s', db') \<Longrightarrow>
     s' = self \<or> (ivar_object self = None \<and> (\<exists>obj. s' = self\<lparr>ivar_object := Some obj\<rparr>))"
  "update rt self w vals db = (r, s', db') \<Longrightarrow>
     s' = self \<or> (ivar_object self = None \<and> (\<exists>obj. s' = self\<lparr>ivar_object := Some obj\<rparr>))"
  "count rt self wo db = (r2, s', db') \<Longrightarrow>
     s' = self \<or> (ivar_object self = None \<and> (\<exists>obj. s' = self\<lparr>ivar_object := Some obj\<rparr>))"
  using object_lazy [of self db]
  by (auto simp: insert_row_def delete_def update_def count_def split: sum.splits prod.splits)

lemma create_handle:
  "create rt self columns db = (r, s', db') \<Longrightarrow> s' = self \<or> resolved s'"
  by (auto simp: create_def resolved_def Let_def split: option.splits sum.splits prod.splits)

lemma reflect_handle: "reflect self db = Inr s' \<Longrightarrow> resolved s'"
  by (auto simp: reflect_def resolved_def split: sum.splits)

lemma commit_rollback_handle:
  "commit self db = (r, s', db') \<Longrightarrow> ivar_object s' = ivar_object self"
  "rollback self db = (r, s', db') \<Longrightarrow> ivar_object s' = ivar_object self"
  by (auto simp: commit_def rollback_def split: sum.splits option.splits)

lemma lazy_handle:
  assumes "s' = self \<or> (ivar_object self = None \<and> (\<exists>obj. s' = self\<lparr>ivar_object := Some obj\<rparr>))"
  shows "(resolved self \<longrightarrow> resolved s')
       \<and> (ivar_object s' \<noteq> ivar_object self \<longrightarrow> \<not> resolved self \<and> resolved s')"
  using assms by (auto simp: resolved_def)

text \<open>
  C3, as the code has it. From one state of the accessor to the next, the schema
  handle becomes resolved only through \<^verbatim>\<open>create\<close>, \<^verbatim>\<open>reflect\<close>, an operation that
  reads \<^verbatim>\<open>self.object\<close> while nothing is cached, or an assignment to the property
  \<^verbatim>\<open>object\<close>; it becomes unresolved only through an assignment to the property
  \<^verbatim>\<open>name\<close>; and whenever the cached handle differs afterwards, the operation was one
  of \<^verbatim>\<open>create\<close>, \<^verbatim>\<open>reflect\<close> and the two setters, or it resolved an unresolved
  handle by reading \<^verbatim>\<open>self.object\<close>.
\<close>

theorem schema_handle_transitions:
  assumes "step rt c (self, db) = (self', db')"
  shows "(\<not> resolved self \<and> resolved self' \<longrightarrow> spec_resolving c \<or> is_SetObject c)
       \<and> (resolved self \<and> \<not> resolved self' \<longrightarrow> is_SetName c)
       \<and> (ivar_object self' \<noteq> ivar_object self \<longrightarrow>
            assigns_handle c \<or> (\<not> resolved self \<and> resolved self' \<and> spec_resolving c))"
proof (cases c)
  case (Select q)
  obtain r where "select rt self q db = (r, self', db')"
    using assms Select by (cases "select rt self q db") simp
  from lazy_handle [OF select_lazy [OF this]] Select show ?thesis by auto
next
  case (Insert data)
  obtain r where "insert_row rt self data db = (r, self', db')"
    using assms Insert by (cases "insert_row rt self data db") simp
  from lazy_handle [OF dml_lazy(1) [OF this]] Insert show ?thesis by auto
next
  case (Delete w)
  obtain r where "delete rt self w db = (r, self', db')"
    using assms Delete by (cases "delete rt self w db") simp
  from lazy_handle [OF dml_lazy(2) [OF this]] Delete show ?thesis by auto
next
  case (Update w vals)
  obtain r where "update rt self w vals db = (r, self', db')"
    using assms Update by (cases "update rt self w vals db") simp
  from lazy_handle [OF dml_lazy(3) [OF this]] Update show ?thesis by auto
next
  case (Count w)
  obtain r where "count rt self w db = (r, self', db')"
    using assms Count by (cases "count rt self w db") simp
  from lazy_handle [OF dml_lazy(4) [OF this]] Count show ?thesis by auto
next
  case (Create columns)
  obtain r where "create rt self columns db = (r, self', db')"
    using assms Create by (cases "create rt self columns db") simp
  from create_handle [OF this] Create show ?thesis by auto
next
  case Reflect
  with assms reflect_handle [of self db] show ?thesis
    by (auto split: sum.splits)
next
  case (Execute arg)
  with assms show ?thesis by auto
next
  case Rollback
  obtain r where "rollback self db = (r, self', db')"
    using assms Rollback by (cases "rollback self db") simp
  from commit_rollback_handle(2) [OF this] Rollback show ?thesis by (auto simp: resolved_def)
next
  case Commit
  obtain r where "commit self db = (r, self', db')"
    using assms Commit by (cases "commit self db") simp
  from commit_rollback_handle(1) [OF this] Commit show ?thesis by (auto simp: resolved_def)
next
  case GetConnection
  with assms show ?thesis by auto
next
  case (SetConnection x)
  with assms show ?thesis by (auto simp: set_connection_def resolved_def)
next
  case GetObject
  show ?thesis
  proof (cases "object self db")
    case (Inl e)
    with assms GetObject show ?thesis by auto
  next
    case (Inr p)
    obtain obj s1 where p: "p = (obj, s1)" by (cases p)
    from assms GetObject Inr have "self' = s1" by (simp add: p)
    with object_lazy [OF Inr [unfolded p]]
    have "self' = self \<or> (ivar_object self = None \<and> (\<exists>obj. self' = self\<lparr>ivar_object := Some obj\<rparr>))"
      by blast
    from lazy_handle [OF this] GetObject show ?thesis by auto
  qed
next
  case (SetObject v)
  with assms show ?thesis by (auto simp: set_object_def resolved_def)
next
  case GetName
  with assms show ?thesis by auto
next
  case (SetName v)
  with assms show ?thesis by (auto simp: set_name_def resolved_def)
qed

theorem schema_handle_transitions_witness:
  "step sample_runtime Reflect (sample_table, sample_db) =
     (sample_table\<lparr>ivar_object := Some \<lparr>tbl_name = ''populated'', tbl_columns = populated_columns\<rparr>\<rparr>,
      sample_db)
   \<and> \<not> resolved sample_table
   \<and> resolved (sample_table\<lparr>ivar_object := Some \<lparr>tbl_name = ''populated'', tbl_columns = populated_columns\<rparr>\<rparr>)
   \<and> spec_resolving Reflect
   \<and> step sample_runtime (SetName (Some ''other''))
        (sample_table\<lparr>ivar_object := Some \<lparr>tbl_name = ''populated'', tbl_columns = populated_columns\<rparr>\<rparr>,
         sample_db) =
     (sample_table\<lparr>ivar_name := Some ''other''\<rparr>, sample_db)
   \<and> \<not> resolved (sample_table\<lparr>ivar_name := Some ''other''\<rparr>)
   \<and> is_SetName (SetName (Some ''other''))"
proof -
  let ?obj = "\<lparr>tbl_name = ''populated'', tbl_columns = populated_columns\<rparr>"
  have r: "step sample_runtime Reflect (sample_table, sample_db) =
     (sample_table\<lparr>ivar_object := Some ?obj\<rparr>, sample_db)"
    by (simp add: reflect_def reflect_table_def sample_table_def init_def set_name_def name_def
        sample_db_def)
  have n: "step sample_runtime (SetName (Some ''other''))
        (sample_table\<lparr>ivar_object := Some ?obj\<rparr>, sample_db) =
     (sample_table\<lparr>ivar_name := Some ''other''\<rparr>, sample_db)"
    by (simp add: set_name_def sample_table_def init_def)
  have u: "\<not> resolved sample_table"
    by (simp add: resolved_def sample_table_def init_def set_name_def)
  have v: "resolved (sample_table\<lparr>ivar_object := Some ?obj\<rparr>)"
    by (simp add: resolved_def)
  have w: "\<not> resolved (sample_table\<lparr>ivar_name := Some ''other''\<rparr>)"
    by (simp add: resolved_def sample_table_def init_def set_name_def)
  from schema_handle_transitions [OF r] schema_handle_transitions [OF n] u v w
  have "spec_resolving Reflect \<and> is_SetName (SetName (Some ''other''))"
    by simp
  with r n u v w show ?thesis by blast
qed

text \<open>
  C3, as the specification has it, fails: assigning a table object to the property
  \<^verbatim>\<open>object\<close> resolves an unresolved handle, and this is neither \<^verbatim>\<open>create\<close> nor
  \<^verbatim>\<open>reflect\<close> nor a read of \<^verbatim>\<open>self.object\<close>.
\<close>

theorem schema_handle_transitions_counterexample:
  "\<not> resolved sample_table
   \<and> resolved (fst (step sample_runtime
        (SetObject \<lparr>tbl_name = ''populated'', tbl_columns = populated_columns\<rparr>)
        (sample_table, sample_db)))
   \<and> \<not> spec_resolving (SetObject \<lparr>tbl_name = ''populated'', tbl_columns = populated_columns\<rparr>)"
  by (simp add: resolved_def sample_table_def init_def set_name_def set_object_def)

section \<open>Temporal cells read through select\<close>

lemma column_types_names: "map fst (column_types obj) = map col_name (tbl_columns obj)"
  by (simp add: column_types_def)

lemma column_types_member:
  "col \<in> set (tbl_columns obj) \<Longrightarrow>
   (col_name col, col_type col, col_nullable col) \<in> set (column_types obj)"
  by (auto simp: column_types_def)

lemma select_named:
  assumes sel: "select rt self q db = (Inr rows, self', db')" and named: "name self \<noteq> None"
  shows "\<exists>obj stmt delivered.
      ivar_object self' = Some obj
    \<and> ((\<exists>s. select_query rt q = Inr (Inl s) \<and> stmt = TextStmt s)
       \<or> (\<exists>w. select_query rt q = Inr (Inr w) \<and> stmt = SelectStmt obj w))
    \<and> db_execute rt stmt db = (Inr delivered, db')
    \<and> format_rows rt (column_types obj) delivered = Inr rows"
proof (cases "select_query rt q")
  case (Inl e)
  with sel show ?thesis by (simp add: select_def)
next
  case (Inr q1)
  note q = Inr
  show ?thesis
  proof (cases q1)
    case (Inl s)
    note t = Inl
    obtain res db1 where ex: "run_text rt s db = (res, db1)" by (cases "run_text rt s db")
    show ?thesis
    proof (cases res)
      case (Inl e)
      with sel q t ex show ?thesis by (simp add: select_def execute_db_execute)
    next
      case (Inr delivered)
      note d = Inr
      obtain r2 s2 where fr: "format_results rt self delivered db1 = (r2, s2)"
        by (cases "format_results rt self delivered db1")
      from sel q t ex d named fr have e: "r2 = Inr rows" "s2 = self'" "db1 = db'"
        by (simp_all add: select_def execute_db_execute)
      show ?thesis
      proof (cases "object self db1")
        case (Inl e')
        with fr e show ?thesis by (simp add: format_results_def get_types_def)
      next
        case o: (Inr p)
        obtain obj s1 where p: "p = (obj, s1)" by (cases p)
        from fr o e have f: "format_rows rt (column_types obj) delivered = Inr rows" and s: "s1 = self'"
          by (simp_all add: format_results_def get_types_def p)
        from object_result(1) [OF o [unfolded p]] s have "ivar_object self' = Some obj" by simp
        moreover have "db_execute rt (TextStmt s) db = (Inr delivered, db')"
          using ex d e by simp
        ultimately show ?thesis using q t f by blast
      qed
    qed
  next
    case (Inr w)
    note t = Inr
    show ?thesis
    proof (cases "object self db")
      case (Inl e)
      from select_expression_fails [OF q [unfolded t] Inl] sel show ?thesis by simp
    next
      case o: (Inr p)
      obtain obj s1 where p: "p = (obj, s1)" by (cases p)
      note se = select_expression [OF q [unfolded t] o [unfolded p]]
      show ?thesis
      proof (cases "db (tbl_name obj)")
        case None
        with se sel show ?thesis by simp
      next
        case (Some st)
        show ?thesis
        proof (cases "where_known (tbl_name obj) st w")
          case False
          with se sel Some show ?thesis by simp
        next
          case True
          with se sel Some
          have f: "format_rows rt (column_types obj) (filter (sql_eval rt w) (st_rows st)) = Inr rows"
            and e: "self' = s1" "db' = db" by simp_all
          from object_result(1) [OF o [unfolded p]] e have "ivar_object self' = Some obj" by simp
          moreover have "db_execute rt (SelectStmt obj w) db
              = (Inr (filter (sql_eval rt w) (st_rows st)), db')"
            using Some True e by simp
          ultimately show ?thesis using q t f by blast
        qed
      qed
    qed
  qed
qed

lemma format_rows_cell:
  assumes f: "format_rows rt (column_types obj) delivered = Inr rows"
    and dist: "distinct (map col_name (tbl_columns obj))"
    and i: "i < length delivered" and col: "col \<in> set (tbl_columns obj)"
    and v: "map_of (delivered ! i) (col_name col) = Some v"
  shows "\<exists>v'. to_native rt v (col_type col) (col_nullable col) = Inr v'
      \<and> map_of (rows ! i) (col_name col) = Some v'"
proof -
  from format_rows_all2 [OF f]
  have l2: "list_all2 (\<lambda>r r'. format_row rt (column_types obj) r = Inr r') delivered rows" .
  from list_all2_nthD [OF l2 i]
  have fr: "format_row rt (column_types obj) (delivered ! i) = Inr (rows ! i)" .
  from dist have d: "distinct (map fst (column_types obj))"
    by (simp add: column_types_names)
  from format_row_cell [OF fr d column_types_member [OF col]] v show ?thesis
    by auto
qed

text \<open>
  C6. When \<^verbatim>\<open>select\<close> on an accessor with a table name returns, its rows are the
  rows the backend delivered for the statement, one for one, each cell of a declared
  column passed through \<^verbatim>\<open>to_native\<close>. So, the names of the declared columns being
  distinct: a cell that arrived as a string in a column declared \<^verbatim>\<open>Date\<close> or
  \<^verbatim>\<open>DateTime\<close> is received as the date or datetime that \<^verbatim>\<open>fromisoformat\<close> parses
  from it, never as a string, and a cell that is already an instance of the declared
  class is received unchanged. In \<^verbatim>\<open>to_native\<close> itself, a string for a temporal
  column goes to \<^verbatim>\<open>fromisoformat\<close> (whose error is raised when it does not parse),
  and an instance of the declared class is returned as it is.
\<close>

theorem select_temporal:
  "(select rt self q db = (Inr rows, self', db') \<and> name self \<noteq> None \<longrightarrow>
     (\<exists>obj stmt delivered.
        ivar_object self' = Some obj
      \<and> ((\<exists>s. select_query rt q = Inr (Inl s) \<and> stmt = TextStmt s)
         \<or> (\<exists>w. select_query rt q = Inr (Inr w) \<and> stmt = SelectStmt obj w))
      \<and> db_execute rt stmt db = (Inr delivered, db')
      \<and> length rows = length delivered
      \<and> (distinct (map col_name (tbl_columns obj)) \<longrightarrow>
           (\<forall>i<length delivered. \<forall>col\<in>set (tbl_columns obj). \<forall>v.
              map_of (delivered ! i) (col_name col) = Some v \<longrightarrow>
                (isinstance v (python_type (col_type col)) \<longrightarrow>
                   map_of (rows ! i) (col_name col) = Some v)
              \<and> (\<forall>s. v = PStr s \<and> col_type col = Date \<longrightarrow>
                   (\<exists>d. date_fromisoformat rt s = Inr d
                      \<and> map_of (rows ! i) (col_name col) = Some (PDate d)))
              \<and> (\<forall>s. v = PStr s \<and> col_type col = DateTime \<longrightarrow>
                   (\<exists>d. datetime_fromisoformat rt s = Inr d
                      \<and> map_of (rows ! i) (col_name col) = Some (PDateTime d)))))))
   \<and> to_native rt (PStr s) Date nullable =
       (case date_fromisoformat rt s of Inl e \<Rightarrow> Inl e | Inr d \<Rightarrow> Inr (PDate d))
   \<and> to_native rt (PStr s) DateTime nullable =
       (case datetime_fromisoformat rt s of Inl e \<Rightarrow> Inl e | Inr d \<Rightarrow> Inr (PDateTime d))
   \<and> to_native rt (PStr s) Date nullable \<noteq> Inr (PStr s')
   \<and> to_native rt (PStr s) DateTime nullable \<noteq> Inr (PStr s')
   \<and> (isinstance v (python_type ty) \<longrightarrow> to_native rt v ty nullable = Inr v)"
proof -
  have main: "\<exists>obj stmt delivered.
        ivar_object self' = Some obj
      \<and> ((\<exists>s. select_query rt q = Inr (Inl s) \<and> stmt = TextStmt s)
         \<or> (\<exists>w. select_query rt q = Inr (Inr w) \<and> stmt = SelectStmt obj w))
      \<and> db_execute rt stmt db = (Inr delivered, db')
      \<and> length rows = length delivered
      \<and> (distinct (map col_name (tbl_columns obj)) \<longrightarrow>
           (\<forall>i<length delivered. \<forall>col\<in>set (tbl_columns obj). \<forall>v.
              map_of (delivered ! i) (col_name col) = Some v \<longrightarrow>
                (isinstance v (python_type (col_type col)) \<longrightarrow>
                   map_of (rows ! i) (col_name col) = Some v)
              \<and> (\<forall>s. v = PStr s \<and> col_type col = Date \<longrightarrow>
                   (\<exists>d. date_fromisoformat rt s = Inr d
                      \<and> map_of (rows ! i) (col_name col) = Some (PDate d)))
              \<and> (\<forall>s. v = PStr s \<and> col_type col = DateTime \<longrightarrow>
                   (\<exists>d. datetime_fromisoformat rt s = Inr d
                      \<and> map_of (rows ! i) (col_name col) = Some (PDateTime d)))))"
    if sel: "select rt self q db = (Inr rows, self', db')" and named: "name self \<noteq> None"
  proof -
    from select_named [OF sel named] obtain obj stmt delivered where
      o: "ivar_object self' = Some obj"
      and st: "(\<exists>s. select_query rt q = Inr (Inl s) \<and> stmt = TextStmt s)
         \<or> (\<exists>w. select_query rt q = Inr (Inr w) \<and> stmt = SelectStmt obj w)"
      and ex: "db_execute rt stmt db = (Inr delivered, db')"
      and f: "format_rows rt (column_types obj) delivered = Inr rows"
      by blast
    have len: "length rows = length delivered" by (rule format_rows_length [OF f])
    have cells: "(isinstance v (python_type (col_type col)) \<longrightarrow>
                   map_of (rows ! i) (col_name col) = Some v)
              \<and> (\<forall>s. v = PStr s \<and> col_type col = Date \<longrightarrow>
                   (\<exists>d. date_fromisoformat rt s = Inr d
                      \<and> map_of (rows ! i) (col_name col) = Some (PDate d)))
              \<and> (\<forall>s. v = PStr s \<and> col_type col = DateTime \<longrightarrow>
                   (\<exists>d. datetime_fromisoformat rt s = Inr d
                      \<and> map_of (rows ! i) (col_name col) = Some (PDateTime d)))"
      if dist: "distinct (map col_name (tbl_columns obj))" and i: "i < length delivered"
        and col: "col \<in> set (tbl_columns obj)"
        and v: "map_of (delivered ! i) (col_name col) = Some v" for i col v
    proof -
      from format_rows_cell [OF f dist i col v] obtain v' where
        n: "to_native rt v (col_type col) (col_nullable col) = Inr v'"
        and m: "map_of (rows ! i) (col_name col) = Some v'" by blast
      have a: "isinstance v (python_type (col_type col)) \<longrightarrow>
                   map_of (rows ! i) (col_name col) = Some v"
        using n m to_native_instance [of v "col_type col" rt "col_nullable col"] by auto
      have b: "\<forall>s. v = PStr s \<and> col_type col = Date \<longrightarrow>
                   (\<exists>d. date_fromisoformat rt s = Inr d
                      \<and> map_of (rows ! i) (col_name col) = Some (PDate d))"
        using n m by (auto simp: to_native_string split: sum.splits)
      have c: "\<forall>s. v = PStr s \<and> col_type col = DateTime \<longrightarrow>
                   (\<exists>d. datetime_fromisoformat rt s = Inr d
                      \<and> map_of (rows ! i) (col_name col) = Some (PDateTime d))"
        using n m by (auto simp: to_native_string split: sum.splits)
      from a b c show ?thesis by blast
    qed
    from o st ex len cells show ?thesis by blast
  qed
  have c: "to_native rt (PStr s) Date nullable \<noteq> Inr (PStr s')"
    by (simp add: to_native_string split: sum.splits)
  have d: "to_native rt (PStr s) DateTime nullable \<noteq> Inr (PStr s')"
    by (simp add: to_native_string split: sum.splits)
  from main to_native_string [of rt s nullable] c d to_native_instance [of v ty rt nullable]
  show ?thesis by blast
qed

lemma events_object:
  "object events_table sample_db =
     Inr (\<lparr>tbl_name = ''events'', tbl_columns = events_columns\<rparr>,
          events_table\<lparr>ivar_object := Some \<lparr>tbl_name = ''events'', tbl_columns = events_columns\<rparr>\<rparr>)"
  by (simp add: object_def reflect_def reflect_table_def events_table_def init_def set_name_def
      name_def sample_db_def)

lemma sample_select_text:
  "select sample_runtime sample_table (Some (QText ''SELECT * FROM populated'')) sample_db =
     (Inr [[(''id'', PStr ''a''), (''name'', PStr ''Jack''),
            (''birth_date'', PDate (PyDate 2000 1 1)), (''score'', PInt 100)],
           [(''id'', PStr ''b''), (''name'', PStr ''John''),
            (''birth_date'', PDate (PyDate 1990 1 1)), (''score'', PInt 200)],
           [(''id'', PStr ''c''), (''name'', PStr ''James''),
            (''birth_date'', PDate (PyDate 2020 1 1)), (''score'', PInt 300)]],
      sample_table\<lparr>ivar_object := Some \<lparr>tbl_name = ''populated'', tbl_columns = populated_columns\<rparr>\<rparr>,
      sample_db)"
proof -
  let ?obj = "\<lparr>tbl_name = ''populated'', tbl_columns = populated_columns\<rparr>"
  have n: "name sample_table = Some ''populated''"
    by (simp add: sample_table_def init_def set_name_def name_def)
  have ex: "run_text sample_runtime ''SELECT * FROM populated'' sample_db
      = (Inr [row_a, row_b, row_c], sample_db)"
    by (simp add: sample_runtime_simps sample_run_text_def sample_db_def)
  have gt: "get_types sample_table sample_db
      = Inr (column_types ?obj, sample_table\<lparr>ivar_object := Some ?obj\<rparr>)"
    by (simp add: get_types_def sample_object)
  show ?thesis
    unfolding select_text_named [OF n ex gt] sample_format_rows ..
qed

lemma sample_select_events:
  "select sample_runtime events_table None sample_db =
     (Inr [[(''id'', PInt 1), (''at'', PDateTime (PyDateTime (PyDate 2020 1 2) 3 4 5 0))]],
      events_table\<lparr>ivar_object := Some \<lparr>tbl_name = ''events'', tbl_columns = events_columns\<rparr>\<rparr>,
      sample_db)"
proof -
  let ?obj = "\<lparr>tbl_name = ''events'', tbl_columns = events_columns\<rparr>"
  let ?st = "\<lparr>st_columns = events_columns, st_rows = [row_e]\<rparr>"
  have q: "select_query sample_runtime None = Inr (Inr SqlTrue)"
    by (simp add: select_query_def)
  have d: "sample_db (tbl_name ?obj) = Some ?st"
    by (simp add: sample_db_def)
  have wk: "where_known (tbl_name ?obj) ?st SqlTrue" by (rule where_known_true)
  have fl: "filter (sql_eval sample_runtime SqlTrue) (st_rows ?st) = [row_e]" by simp
  have fr: "format_rows sample_runtime (column_types ?obj) [row_e]
      = Inr [[(''id'', PInt 1), (''at'', PDateTime (PyDateTime (PyDate 2020 1 2) 3 4 5 0))]]"
    by (simp add: column_types_def events_columns_def row_e_def to_native_def sample_runtime_simps
        sample_datetime_fromisoformat_def sample_date_fromisoformat_def sample_time_def
        digit_val_def days_in_month_def)
  show ?thesis
    unfolding select_expression [OF q events_object] d option.case fl fr
    using wk by (simp only: if_True)
qed

theorem select_temporal_witness:
  "name sample_table \<noteq> None
   \<and> select sample_runtime sample_table (Some (QText ''SELECT * FROM populated'')) sample_db =
     (Inr [[(''id'', PStr ''a''), (''name'', PStr ''Jack''),
            (''birth_date'', PDate (PyDate 2000 1 1)), (''score'', PInt 100)],
           [(''id'', PStr ''b''), (''name'', PStr ''John''),
            (''birth_date'', PDate (PyDate 1990 1 1)), (''score'', PInt 200)],
           [(''id'', PStr ''c''), (''name'', PStr ''James''),
            (''birth_date'', PDate (PyDate 2020 1 1)), (''score'', PInt 300)]],
      sample_table\<lparr>ivar_object := Some \<lparr>tbl_name = ''populated'', tbl_columns = populated_columns\<rparr>\<rparr>,
      sample_db)
   \<and> db_execute sample_runtime (TextStmt ''SELECT * FROM populated'') sample_db
       = (Inr [row_a, row_b, row_c], sample_db)
   \<and> map_of ([row_a, row_b, row_c] ! 0) ''birth_date'' = Some (PStr ''2000-01-01'')
   \<and> date_fromisoformat sample_runtime ''2000-01-01'' = Inr (PyDate 2000 1 1)
   \<and> name events_table \<noteq> None
   \<and> select sample_runtime events_table None sample_db =
     (Inr [[(''id'', PInt 1), (''at'', PDateTime (PyDateTime (PyDate 2020 1 2) 3 4 5 0))]],
      events_table\<lparr>ivar_object := Some \<lparr>tbl_name = ''events'', tbl_columns = events_columns\<rparr>\<rparr>,
      sample_db)
   \<and> db_execute sample_runtime
         (SelectStmt \<lparr>tbl_name = ''events'', tbl_columns = events_columns\<rparr> SqlTrue) sample_db
       = (Inr [row_e], sample_db)
   \<and> map_of ([row_e] ! 0) ''at'' = Some (PStr ''2020-01-02 03:04:05'')
   \<and> datetime_fromisoformat sample_runtime ''2020-01-02 03:04:05''
       = Inr (PyDateTime (PyDate 2020 1 2) 3 4 5 0)"
proof -
  have n1: "name sample_table \<noteq> None"
    by (simp add: sample_table_def init_def set_name_def name_def)
  have n2: "name events_table \<noteq> None"
    by (simp add: events_table_def init_def set_name_def name_def)
  have e1: "db_execute sample_runtime (TextStmt ''SELECT * FROM populated'') sample_db
       = (Inr [row_a, row_b, row_c], sample_db)"
    by (simp add: sample_runtime_simps sample_run_text_def sample_db_def)
  have e2: "db_execute sample_runtime
         (SelectStmt \<lparr>tbl_name = ''events'', tbl_columns = events_columns\<rparr> SqlTrue) sample_db
       = (Inr [row_e], sample_db)"
    by (simp add: sample_db_def where_known_true)
  have c1: "map_of ([row_a, row_b, row_c] ! 0) ''birth_date'' = Some (PStr ''2000-01-01'')"
    by (simp add: row_a_def)
  have c2: "map_of ([row_e] ! 0) ''at'' = Some (PStr ''2020-01-02 03:04:05'')"
    by (simp add: row_e_def)
  have p1: "date_fromisoformat sample_runtime ''2000-01-01'' = Inr (PyDate 2000 1 1)"
    by (simp add: sample_runtime_simps sample_date_fromisoformat_def digit_val_def days_in_month_def)
  have p2: "datetime_fromisoformat sample_runtime ''2020-01-02 03:04:05''
       = Inr (PyDateTime (PyDate 2020 1 2) 3 4 5 0)"
    by (simp add: sample_runtime_simps sample_datetime_fromisoformat_def sample_date_fromisoformat_def
        sample_time_def digit_val_def days_in_month_def)
  note t1 = select_temporal [of sample_runtime sample_table "Some (QText ''SELECT * FROM populated'')"
      sample_db _ _ sample_db "''2000-01-01''" True "[]" "PDate (PyDate 2000 1 1)" Date]
  note t2 = select_temporal [of sample_runtime events_table None
      sample_db _ _ sample_db "''2020-01-02 03:04:05''" True "[]" "PDate (PyDate 2000 1 1)" Date]
  from t1 sample_select_text n1
  have "\<exists>obj stmt delivered.
        ivar_object (sample_table\<lparr>ivar_object := Some \<lparr>tbl_name = ''populated'', tbl_columns = populated_columns\<rparr>\<rparr>) = Some obj
      \<and> db_execute sample_runtime stmt sample_db = (Inr delivered, sample_db)
      \<and> length [[(''id'', PStr ''a''), (''name'', PStr ''Jack''),
            (''birth_date'', PDate (PyDate 2000 1 1)), (''score'', PInt 100)],
           [(''id'', PStr ''b''), (''name'', PStr ''John''),
            (''birth_date'', PDate (PyDate 1990 1 1)), (''score'', PInt 200)],
           [(''id'', PStr ''c''), (''name'', PStr ''James''),
            (''birth_date'', PDate (PyDate 2020 1 1)), (''score'', PInt 300)]] = length delivered"
    by blast
  moreover from t2 sample_select_events n2
  have "\<exists>obj stmt delivered.
        ivar_object (events_table\<lparr>ivar_object := Some \<lparr>tbl_name = ''events'', tbl_columns = events_columns\<rparr>\<rparr>) = Some obj
      \<and> db_execute sample_runtime stmt sample_db = (Inr delivered, sample_db)
      \<and> length [[(''id'', PInt 1), (''at'', PDateTime (PyDateTime (PyDate 2020 1 2) 3 4 5 0))]]
          = length delivered"
    by blast
  ultimately show ?thesis
    using n1 n2 e1 e2 c1 c2 p1 p2 sample_select_text sample_select_events by blast
qed

end
